theory Spec2Isabelle
  imports Complex_Main "HOL-Library.AList"
begin

section \<open>The network constructor (molhgcn/hypergraphnetwork/Networks.py)\<close>

text \<open>
  \<^verbatim>\<open>Net.__init__\<close> builds its sub-modules from the dimensions it is given. The classes
  \<^verbatim>\<open>MLP\<close>, \<^verbatim>\<open>HyperMPNN\<close> and \<^verbatim>\<open>WeightedSumAndMax\<close> live in modules that are imported
  but not part of the two source files, and \<^verbatim>\<open>nn.Linear\<close> belongs to the tensor library.
  A constructed module is therefore modelled as the record of the arguments its constructor
  call receives: positional arguments by position, keyword arguments by keyword, and a
  keyword that the call leaves out as \<open>None\<close> (the constructor's own default applies).

  Dimensions are sizes. \<^verbatim>\<open>nn.Linear\<close> (lines 23 to 25) rejects a negative size before any
  of the later constructor calls is reached, so sizes are natural numbers. Dropout
  probabilities are Python floats; they are only passed on, and are written as rationals.
\<close>

record linear_args =
  in_features :: nat
  out_features :: nat

record mlp_args =
  mlp_input_dim :: nat
  mlp_output_dim :: nat
  mlp_dropout_prob :: rat
  mlp_num_neurons :: "nat list option"
  mlp_hidden_act :: "string option"
  mlp_input_norm :: "string option"

text \<open>\<^verbatim>\<open>HyperMPNN(em, nm, am, fem, fnm, fam)\<close>: six positional arguments, in this order.\<close>

record hypermpnn_args =
  hm_em :: mlp_args
  hm_nm :: mlp_args
  hm_am :: mlp_args
  hm_fem :: mlp_args
  hm_fnm :: mlp_args
  hm_fam :: mlp_args

record net =
  node_encoder :: linear_args
  edge_encoder :: linear_args
  fg_encoder :: linear_args
  node_readout_func :: nat
  fg_readout_func :: nat
  reg :: mlp_args
  gnn_l :: hypermpnn_args

text \<open>
  \<^verbatim>\<open>MLP(i, o, dropout_prob=dp, num_neurons=ns, hidden_act=act, input_norm=inorm)\<close>, the
  call shape of lines 31 to 42.
\<close>

definition MLP_full :: "nat \<Rightarrow> nat \<Rightarrow> rat \<Rightarrow> nat list \<Rightarrow> string \<Rightarrow> string \<Rightarrow> mlp_args" where
  "MLP_full i o' dp ns act inorm =
     \<lparr>mlp_input_dim = i, mlp_output_dim = o', mlp_dropout_prob = dp,
      mlp_num_neurons = Some ns, mlp_hidden_act = Some act, mlp_input_norm = Some inorm\<rparr>"

text \<open>\<^verbatim>\<open>MLP(i, o, dropout_prob=dp)\<close>, the call shape of line 29.\<close>

definition MLP_dp :: "nat \<Rightarrow> nat \<Rightarrow> rat \<Rightarrow> mlp_args" where
  "MLP_dp i o' dp =
     \<lparr>mlp_input_dim = i, mlp_output_dim = o', mlp_dropout_prob = dp,
      mlp_num_neurons = None, mlp_hidden_act = None, mlp_input_norm = None\<rparr>"

text \<open>
  \<^verbatim>\<open>Net.__init__(out_dim, node_in_dim, edge_in_dim, fg_in_dim, num_neurons, input_norm,
  nef_dp, reg_dp, node_hidden_dim, edge_hidden_dim, fg_hidden_dim, activation)\<close>,
  lines 23 to 43, statement by statement.
\<close>

definition Net_init ::
  "nat \<Rightarrow> nat \<Rightarrow> nat \<Rightarrow> nat \<Rightarrow> nat list \<Rightarrow> string \<Rightarrow> rat \<Rightarrow> rat \<Rightarrow> nat \<Rightarrow> nat \<Rightarrow> nat \<Rightarrow> string \<Rightarrow> net"
where
  "Net_init out_dim node_in_dim edge_in_dim fg_in_dim num_neurons input_norm nef_dp reg_dp
       node_hidden_dim edge_hidden_dim fg_hidden_dim activation =
     (let nm = MLP_full (node_hidden_dim + edge_hidden_dim) node_hidden_dim
                 nef_dp num_neurons activation input_norm;
          em = MLP_full (node_hidden_dim * 2 + edge_hidden_dim) edge_hidden_dim
                 nef_dp num_neurons activation input_norm;
          am = MLP_full (node_hidden_dim * 2 + edge_hidden_dim) 1
                 nef_dp num_neurons ''Identity'' input_norm;
          fem = MLP_full (2 * (node_hidden_dim + fg_hidden_dim)) fg_hidden_dim
                  nef_dp num_neurons activation input_norm;
          fnm = MLP_full (fg_hidden_dim * 2 + node_hidden_dim) fg_hidden_dim
                  nef_dp num_neurons activation input_norm;
          fam = MLP_full (2 * (node_hidden_dim + fg_hidden_dim)) fg_hidden_dim
                  nef_dp num_neurons ''Identity'' input_norm
      in \<lparr>node_encoder = \<lparr>in_features = node_in_dim, out_features = node_hidden_dim\<rparr>,
          edge_encoder = \<lparr>in_features = edge_in_dim, out_features = edge_hidden_dim\<rparr>,
          fg_encoder = \<lparr>in_features = fg_in_dim, out_features = fg_hidden_dim\<rparr>,
          node_readout_func = node_hidden_dim,
          fg_readout_func = fg_hidden_dim,
          reg = MLP_dp (2 * (node_hidden_dim + fg_hidden_dim)) out_dim reg_dp,
          gnn_l = \<lparr>hm_em = em, hm_nm = nm, hm_am = am,
                   hm_fem = fem, hm_fnm = fnm, hm_fam = fam\<rparr>\<rparr>)"

text \<open>The default of the last parameter: \<^verbatim>\<open>activation: str = 'LeakyReLU'\<close>.\<close>

definition Net_init_default ::
  "nat \<Rightarrow> nat \<Rightarrow> nat \<Rightarrow> nat \<Rightarrow> nat list \<Rightarrow> string \<Rightarrow> rat \<Rightarrow> rat \<Rightarrow> nat \<Rightarrow> nat \<Rightarrow> nat \<Rightarrow> net"
where
  "Net_init_default out_dim node_in_dim edge_in_dim fg_in_dim num_neurons input_norm nef_dp
       reg_dp node_hidden_dim edge_hidden_dim fg_hidden_dim =
     Net_init out_dim node_in_dim edge_in_dim fg_in_dim num_neurons input_norm nef_dp reg_dp
       node_hidden_dim edge_hidden_dim fg_hidden_dim ''LeakyReLU''"


section \<open>The forward pass (\<^verbatim>\<open>Net.forward\<close>, Networks.py lines 45 to 60)\<close>

text \<open>
  Tensors are two-dimensional: a list of rows, one row per node, edge or graph. Their
  entries are floating-point numbers in the program; the model computes with rationals, so
  rounding is not part of it.
\<close>

type_synonym tensor = "rat list list"

datatype error = RuntimeError | LoadError string | ZeroDivisionError

text \<open>
  The heterogeneous graph of the graph library, as far as \<^verbatim>\<open>forward\<close> touches it: the
  feature frames \<^verbatim>\<open>g.nodes[ntype].data\<close> and \<^verbatim>\<open>g.edges[etype].data\<close> (dictionaries from a
  feature name to a tensor, one per node type and edge type) and, for a batched graph, the
  number of nodes of each type that every member graph contributes.
\<close>

record graph =
  node_frames :: "string \<Rightarrow> (string \<rightharpoonup> tensor)"
  edge_frames :: "string \<Rightarrow> (string \<rightharpoonup> tensor)"
  batch_num_nodes :: "string \<Rightarrow> nat list"

text \<open>\<^verbatim>\<open>g.nodes[ntype].data[key] = value\<close>\<close>

definition set_ndata :: "graph \<Rightarrow> string \<Rightarrow> string \<Rightarrow> tensor \<Rightarrow> graph" where
  "set_ndata g ntype key v =
     g\<lparr>node_frames := (node_frames g)(ntype := (node_frames g ntype)(key \<mapsto> v))\<rparr>"

text \<open>
  \<^verbatim>\<open>with g.local_scope(): body\<close>. The graph library enters the scope by replacing the
  graph's node and edge frames with copies and leaves it by putting the frames it had
  saved back; nothing else of the graph is restored, and when the body raises, the
  exception passes through. Tensors are values here, so a body that overwrites the
  entries of a stored tensor in place (which the library's scope does not undo) is not
  expressible; \<^verbatim>\<open>forward\<close> itself only assigns to feature names.
\<close>

definition local_scope :: "graph \<Rightarrow> (graph \<Rightarrow> error + graph \<times> 'r) \<Rightarrow> error + graph \<times> 'r" where
  "local_scope g body =
     (case body g of
        Inl e \<Rightarrow> Inl e
      | Inr (g', r) \<Rightarrow>
          Inr (g'\<lparr>node_frames := node_frames g, edge_frames := edge_frames g\<rparr>, r))"

text \<open>
  \<^verbatim>\<open>torch.cat([a, b], dim=-1)\<close> on two-dimensional tensors: the rows are joined pairwise,
  and tensors with different numbers of rows are rejected.
\<close>

definition torch_cat_last :: "tensor \<Rightarrow> tensor \<Rightarrow> error + tensor" where
  "torch_cat_last a b =
     (if length a = length b then Inr (map2 (@) a b) else Inl RuntimeError)"

text \<open>
  What calling each sub-module computes. The sub-modules' classes are outside the two
  source files, so their forward functions are parameters. \<^verbatim>\<open>self.gnn_l\<close> receives the
  graph and may store features on it; it returns the graph as it left it together with
  the three updated embeddings. The readout functions read the graph.
\<close>

record net_calls =
  node_encoder_call :: "tensor \<Rightarrow> tensor"
  edge_encoder_call :: "tensor \<Rightarrow> tensor"
  fg_encoder_call :: "tensor \<Rightarrow> tensor"
  gnn_l_call :: "graph \<Rightarrow> tensor \<Rightarrow> tensor \<Rightarrow> tensor \<Rightarrow> graph \<times> tensor \<times> tensor \<times> tensor"
  node_readout_call :: "graph \<Rightarrow> tensor \<Rightarrow> string \<Rightarrow> tensor"
  fg_readout_call :: "graph \<Rightarrow> tensor \<Rightarrow> string \<Rightarrow> tensor"
  reg_call :: "tensor \<Rightarrow> tensor"

text \<open>
  Lines 47 to 58, the body of the \<^verbatim>\<open>with\<close> block up to the concatenated readout: the
  graph as the block leaves it, and the tensor that line 59 hands to the regressor.
\<close>

definition forward_readout ::
  "net_calls \<Rightarrow> graph \<Rightarrow> tensor \<Rightarrow> tensor \<Rightarrow> tensor \<Rightarrow> error + graph \<times> tensor"
where
  "forward_readout m g nf ef ff =
     (let unf0 = node_encoder_call m nf;
          uef0 = edge_encoder_call m ef;
          uff0 = fg_encoder_call m ff
      in case gnn_l_call m g unf0 uef0 uff0 of
           (g1, unf, uef, uff) \<Rightarrow>
             (let g2 = set_ndata g1 ''atom'' ''h'' unf;
                  g3 = set_ndata g2 ''func_group'' ''h'' uff;
                  node_readout = node_readout_call m g3 unf ''atom'';
                  fg_readout = fg_readout_call m g3 uff ''func_group''
              in case torch_cat_last node_readout fg_readout of
                   Inl e \<Rightarrow> Inl e
                 | Inr readout \<Rightarrow> Inr (g3, readout)))"

text \<open>Lines 47 to 60: the whole body, ending with \<^verbatim>\<open>y = self.reg(readout); return y\<close>.\<close>

definition forward_body ::
  "net_calls \<Rightarrow> tensor \<Rightarrow> tensor \<Rightarrow> tensor \<Rightarrow> graph \<Rightarrow> error + graph \<times> tensor"
where
  "forward_body m nf ef ff g =
     (case forward_readout m g nf ef ff of
        Inl e \<Rightarrow> Inl e
      | Inr (g3, readout) \<Rightarrow> Inr (g3, reg_call m readout))"

text \<open>
  \<^verbatim>\<open>Net.forward(g, nf, ef, ff)\<close>: the graph after the call, and the prediction \<^verbatim>\<open>y\<close>.
\<close>

definition forward ::
  "net_calls \<Rightarrow> graph \<Rightarrow> tensor \<Rightarrow> tensor \<Rightarrow> tensor \<Rightarrow> error + graph \<times> tensor"
where
  "forward m g nf ef ff = local_scope g (forward_body m nf ef ff)"

subsection \<open>The readout\<close>

text \<open>
  The rows of a batched feature tensor, cut into one piece per member graph.
\<close>

fun segments :: "nat list \<Rightarrow> 'a list \<Rightarrow> 'a list list" where
  "segments [] xs = []"
| "segments (n # ns) xs = take n xs # segments ns (drop n xs)"

record wsam =
  wsam_in_feats :: nat
  wsam_score :: "rat list \<Rightarrow> rat"
  wsam_empty_max :: rat

definition weighted_sum :: "wsam \<Rightarrow> tensor \<Rightarrow> rat list" where
  "weighted_sum w hs =
     foldr (\<lambda>h acc. map2 (+) (map (\<lambda>x. wsam_score w h * x) h) acc) hs
       (replicate (wsam_in_feats w) 0)"

fun max_nodes :: "wsam \<Rightarrow> tensor \<Rightarrow> rat list" where
  "max_nodes w [] = replicate (wsam_in_feats w) (wsam_empty_max w)"
| "max_nodes w [h] = h"
| "max_nodes w (h # hs) = map2 max h (max_nodes w hs)"

text \<open>
  Modelled from the spec: the forward function of \<^verbatim>\<open>WeightedSumAndMax\<close>
  (molhgcn/hypergraphnetwork/readout.py, which is not among the source files), after
  section 4.2 of the specification: for each graph of the batch, a per-node scalar weight
  from a learned scoring function forms a weighted sum over that graph's nodes of the
  type, an elementwise maximum is taken over the same nodes, and the weighted-sum vector
  and the max vector are concatenated; nodes of different graphs are never mixed. For a
  graph without nodes of the type the weighted sum is the zero vector and the maximum is
  a fill value broadcast, which the specification leaves open (\<open>wsam_empty_max\<close>). The
  scoring function is learned and is a parameter (\<open>wsam_score\<close>).
\<close>

definition WeightedSumAndMax_forward :: "wsam \<Rightarrow> graph \<Rightarrow> tensor \<Rightarrow> string \<Rightarrow> tensor" where
  "WeightedSumAndMax_forward w g feats n_type =
     map (\<lambda>hs. weighted_sum w hs @ max_nodes w hs)
       (segments (batch_num_nodes g n_type) feats)"


subsection \<open>The message-passing layer on atom--atom edges\<close>

text \<open>
  Modelled from the spec: a module of class \<^verbatim>\<open>MLP\<close> (molhgcn/utils/MLP.py, which is not
  among the source files), after sections 4.1 and 9 of the specification: a feed-forward
  block selected by a configuration (dimensions, activation, dropout rate) that maps a
  feature vector to an output vector by a learned function. The configuration is the
  record of constructor arguments that \<^const>\<open>Net_init\<close> builds; the learned function is a
  parameter.
\<close>

record mlp =
  mlp_cfg :: mlp_args
  mlp_map :: "rat list \<Rightarrow> rat list"

text \<open>
  Modelled from the spec: the forward function of \<^verbatim>\<open>MLP\<close> on one feature vector, after the
  shape invariant of sections 4.1 and 8 of the specification: a vector whose width is
  not the declared input dimension is a fatal configuration error, and every vector the
  block produces has the declared output dimension (a learned function that breaks this
  is reported as the same error).
\<close>

definition MLP_forward :: "mlp \<Rightarrow> rat list \<Rightarrow> error + rat list" where
  "MLP_forward m x =
     (if length x \<noteq> mlp_input_dim (mlp_cfg m) then Inl RuntimeError
      else if length (mlp_map m x) \<noteq> mlp_output_dim (mlp_cfg m) then Inl RuntimeError
      else Inr (mlp_map m x))"

text \<open>
  The six modules handed to \<^verbatim>\<open>HyperMPNN(em, nm, am, fem, fnm, fam)\<close>, in this order.
\<close>

record hypermpnn =
  hp_em :: mlp
  hp_nm :: mlp
  hp_am :: mlp
  hp_fem :: mlp
  hp_fnm :: mlp
  hp_fam :: mlp

text \<open>
  Modelled from the spec: steps 1 and 2 of the layer \<^verbatim>\<open>HyperMPNN\<close>
  (molhgcn/hypergraphnetwork/hypermessage.py, which is not among the source files) for
  one atom--atom edge, after section 4.1 of the specification: the message input is the
  concatenation of the source atom embedding, the destination atom embedding and the
  current edge embedding; the edge-update function (the first module) maps it to the new
  edge embedding, and the gate function (the third module) maps the same input to the
  gate of the edge. \<open>k\<close> is the index of the edge, \<open>s\<close> and \<open>d\<close> are the indices of its source
  and destination atom; feature tensors are aligned with these indices, and an index
  outside a tensor is an error.
\<close>

definition atom_edge :: "hypermpnn \<Rightarrow> tensor \<Rightarrow> tensor \<Rightarrow> nat \<Rightarrow> nat \<Rightarrow> nat
    \<Rightarrow> error + rat list \<times> rat list" where
  "atom_edge h nf ef k s d =
     (if s < length nf \<and> d < length nf \<and> k < length ef then
        (let x = nf ! s @ nf ! d @ ef ! k
         in case MLP_forward (hp_em h) x of
              Inl e \<Rightarrow> Inl e
            | Inr new_ef \<Rightarrow>
                (case MLP_forward (hp_am h) x of
                   Inl e \<Rightarrow> Inl e
                 | Inr gate \<Rightarrow> Inr (new_ef, gate)))
      else Inl RuntimeError)"

fun atom_edge_loop :: "hypermpnn \<Rightarrow> tensor \<Rightarrow> tensor \<Rightarrow> (nat \<times> nat \<times> nat) list
    \<Rightarrow> error + (rat list \<times> rat list) list" where
  "atom_edge_loop h nf ef [] = Inr []"
| "atom_edge_loop h nf ef ((k, s, d) # rest) =
     (case atom_edge h nf ef k s d of
        Inl e \<Rightarrow> Inl e
      | Inr r \<Rightarrow>
          (case atom_edge_loop h nf ef rest of
             Inl e \<Rightarrow> Inl e
           | Inr rs \<Rightarrow> Inr (r # rs)))"

text \<open>
  Modelled from the spec: steps 1 and 2 of \<^verbatim>\<open>HyperMPNN\<close> for every atom--atom edge of the
  graph. \<open>edges\<close> are the atom--atom edges as pairs of source and destination atom index,
  in the order of the rows of the edge feature tensor. The result has, for every edge
  in this order, the new edge embedding and the gate.
\<close>

definition HyperMPNN_atom_edges :: "hypermpnn \<Rightarrow> tensor \<Rightarrow> tensor \<Rightarrow> (nat \<times> nat) list
    \<Rightarrow> error + (rat list \<times> rat list) list" where
  "HyperMPNN_atom_edges h nf ef edges = atom_edge_loop h nf ef (enumerate 0 edges)"


section \<open>The training script (cleanedup_regression_node.py)\<close>

subsection \<open>Configuration\<close>

text \<open>
  The nested dictionary that \<^verbatim>\<open>get_config\<close> returns, one field per leaf, named by its path.
\<close>

record config =
  model_num_neurons :: "nat list"
  model_input_norm :: string
  model_nef_dp :: rat
  model_reg_dp :: rat
  data_init_feat :: bool
  data_fg_cyc :: bool
  train_ds :: string
  train_n_procs :: nat
  train_lr :: rat
  train_bs :: nat
  train_epochs :: nat
  train_T_0 :: nat
  log_log_every :: nat
  wandb_group :: "string option"

definition get_config ::
  "string \<Rightarrow> bool \<Rightarrow> bool \<Rightarrow> nat list \<Rightarrow> string \<Rightarrow> rat \<Rightarrow> rat \<Rightarrow> config"
where
  "get_config ds init_feat fg_cyc num_neurons input_norm nef_dp reg_dp =
     \<lparr>model_num_neurons = num_neurons,
      model_input_norm = input_norm,
      model_nef_dp = nef_dp,
      model_reg_dp = reg_dp,
      data_init_feat = init_feat,
      data_fg_cyc = fg_cyc,
      train_ds = ds,
      train_n_procs = 3,
      train_lr = 1 / 1000,
      train_bs = 128,
      train_epochs = 2400,
      train_T_0 = 50,
      log_log_every = 50,
      wandb_group = None\<rparr>"

subsection \<open>The graph files\<close>

text \<open>
  Lines 67 to 84: the three files handed to \<^verbatim>\<open>load_graphs\<close>, in the order train,
  validation, test. \<^verbatim>\<open>'data/{}_train.bin'.format(ds)\<close> puts the string \<^verbatim>\<open>ds\<close> in place of
  the braces.
\<close>

definition graph_files :: "string \<Rightarrow> bool \<Rightarrow> bool \<Rightarrow> string \<times> string \<times> string" where
  "graph_files ds init_feat fg_cyc =
     (if fg_cyc then
        (if init_feat then
           (''data/'' @ ds @ ''_train.bin'',
            ''data/'' @ ds @ ''_val.bin'',
            ''data/'' @ ds @ ''_test.bin'')
         else
           (''data/noinit_'' @ ds @ ''_train.bin'',
            ''data/noinit_'' @ ds @ ''_val.bin'',
            ''data/noinit_'' @ ds @ ''_test.bin''))
      else
        (if init_feat then
           (''data_nocyc/nocyc_'' @ ds @ ''_train.bin'',
            ''data_nocyc/nocyc_'' @ ds @ ''_val.bin'',
            ''data_nocyc/nocyc_'' @ ds @ ''_test.bin'')
         else
           (''data_nocyc/nocyc_noinit_'' @ ds @ ''_train.bin'',
            ''data_nocyc/nocyc_noinit_'' @ ds @ ''_val.bin'',
            ''data_nocyc/nocyc_noinit_'' @ ds @ ''_test.bin'')))"

subsection \<open>Calls to the collaborators\<close>

text \<open>
  A scalar the program logs: a number, or the not-a-number that the mean of an empty
  tensor is.
\<close>

datatype scalar = Num rat | NaN

text \<open>
  The graphs a forward pass of the model is run on: the batch with index \<open>i\<close> that the
  training loader yields in epoch \<open>e\<close>, the batched validation graphs, the batched test
  graphs.
\<close>

datatype graphs = TrainBatch nat nat | ValGraphs | TestGraphs

text \<open>
  The run of the script is recorded as the sequence of calls it makes to its
  collaborators (graph files, model, optimizer, scheduler, experiment tracker, checkpoint
  file), in program order:
  \<^item> \<open>LoadGraphs p\<close>: \<^verbatim>\<open>load_graphs(p)\<close>;
  \<^item> \<open>ModelInit\<close>: \<^verbatim>\<open>Net3_2(..., **config.model)\<close> with the four entries of \<^verbatim>\<open>config.model\<close>;
  \<^item> \<open>OptimizerInit lr\<close>: \<^verbatim>\<open>AdamP(model.parameters(), lr=lr)\<close>;
  \<^item> \<open>SchedulerInit T_0\<close>: \<^verbatim>\<open>CosineAnnealingWarmRestarts(opt, T_0=T_0)\<close>;
  \<^item> \<open>WandbInit project group\<close>, \<open>SaveConfig\<close>, \<open>WandbWatch\<close>: lines 107 to 112;
  \<^item> \<open>ModelCall gs\<close>: \<^verbatim>\<open>model(gs, af, bf, ff)\<close>;
  \<^item> \<open>ZeroGrad\<close>, \<open>Backward loss\<close>, \<open>OptStep\<close>: \<^verbatim>\<open>opt.zero_grad()\<close>, \<^verbatim>\<open>loss.backward()\<close>,
    \<^verbatim>\<open>opt.step()\<close>;
  \<^item> \<open>SchedulerStep x\<close>: \<^verbatim>\<open>scheduler.step(x)\<close>;
  \<^item> \<open>NoGradEnter\<close>, \<open>NoGradExit\<close>: entering and leaving \<^verbatim>\<open>with torch.no_grad()\<close>;
  \<^item> \<open>ModelEval\<close>, \<open>ModelTrain\<close>: \<^verbatim>\<open>model.eval()\<close>, \<^verbatim>\<open>model.train()\<close>;
  \<^item> \<open>WandbLog d\<close>: \<^verbatim>\<open>wandb.log(d)\<close>;
  \<^item> \<open>TorchSave\<close>: \<^verbatim>\<open>torch.save(model.state_dict(), join(wandb.run.dir, "model.pt"))\<close>;
  \<^item> \<open>RunFinish\<close>: \<^verbatim>\<open>run.finish()\<close>.
\<close>

datatype event =
    LoadGraphs string
  | ModelInit "nat list" string rat rat
  | OptimizerInit rat
  | SchedulerInit nat
  | WandbInit string "string option"
  | SaveConfig
  | WandbWatch
  | ModelCall graphs
  | ZeroGrad
  | Backward scalar
  | OptStep
  | SchedulerStep rat
  | NoGradEnter
  | NoGradExit
  | ModelEval
  | ModelTrain
  | WandbLog "(string \<times> scalar) list"
  | TorchSave
  | RunFinish

text \<open>
  What the collaborators answer. None of them is in the two source files, so each is a
  parameter:
  \<^item> \<open>load_graphs p\<close>: the label tensor \<^verbatim>\<open>info['y']\<close> stored in file \<open>p\<close>, or \<open>None\<close> when the
    file cannot be loaded (the graphs themselves stay in the file's name);
  \<^item> \<open>len_train_dl p bs\<close>: \<^verbatim>\<open>len(train_dl)\<close> for the loader built over file \<open>p\<close> with batch
    size \<open>bs\<close>;
  \<^item> \<open>train_dl_labels p bs e i\<close>: the labels of the batch with index \<open>i\<close> that this loader
    yields in epoch \<open>e\<close> (the loader shuffles, so the batches differ between epochs);
  \<^item> \<open>model_out tr gs\<close>: the predictions \<^verbatim>\<open>model(gs, af, bf, ff)\<close> returns after the calls
    \<open>tr\<close> have been made (the parameters of the model are whatever the optimizer steps
    so far have made them);
  \<^item> \<open>opt_lr tr\<close>: \<^verbatim>\<open>opt.param_groups[0]['lr']\<close> after the calls \<open>tr\<close>;
  \<^item> \<open>compute_rmse\<close>: the function of that name from the statistics module;
  \<^item> \<open>mse_broadcast a b\<close>: what the tensor library's unreduced squared error does with
    tensors of different shapes (it broadcasts them when it can and raises otherwise).
\<close>

record env =
  load_graphs :: "string \<rightharpoonup> tensor"
  len_train_dl :: "string \<Rightarrow> nat \<Rightarrow> nat"
  train_dl_labels :: "string \<Rightarrow> nat \<Rightarrow> nat \<Rightarrow> nat \<Rightarrow> tensor"
  model_out :: "event list \<Rightarrow> graphs \<Rightarrow> tensor"
  opt_lr :: "event list \<Rightarrow> rat"
  compute_rmse :: "tensor \<Rightarrow> tensor \<Rightarrow> scalar"
  mse_broadcast :: "tensor \<Rightarrow> tensor \<Rightarrow> error + tensor"

subsection \<open>The loss\<close>

definition same_shape :: "tensor \<Rightarrow> tensor \<Rightarrow> bool" where
  "same_shape a b = (map length a = map length b)"

text \<open>
  \<^verbatim>\<open>criterion = torch.nn.MSELoss(reduction='none')\<close>, line 104: on tensors of one shape,
  the tensor of that shape whose entries are the squared differences.
\<close>

definition criterion :: "env \<Rightarrow> tensor \<Rightarrow> tensor \<Rightarrow> error + tensor" where
  "criterion env input target =
     (if same_shape input target
      then Inr (map2 (map2 (\<lambda>x y. (x - y)\<^sup>2)) input target)
      else mse_broadcast env input target)"

text \<open>\<^verbatim>\<open>t.mean()\<close>: the sum of all entries over their number.\<close>

definition tensor_mean :: "tensor \<Rightarrow> scalar" where
  "tensor_mean t =
     (let xs = concat t
      in if xs = [] then NaN else Num (sum_list xs / of_nat (length xs)))"

subsection \<open>The training loop\<close>

text \<open>
  Lines 118 to 159, the body of the inner loop, for the batch with index \<open>i\<close> of epoch
  \<open>epoch\<close>. The state is the sequence of calls made so far and the counter \<^verbatim>\<open>n_update\<close>.
  \<^verbatim>\<open>log_dict[k] = v\<close> on a Python dictionary replaces the value of a key that is present
  and appends a new key, which is \<^const>\<open>AList.update\<close>.
\<close>

definition train_step ::
  "env \<Rightarrow> config \<Rightarrow> string \<Rightarrow> tensor \<Rightarrow> tensor \<Rightarrow> nat \<Rightarrow> nat \<Rightarrow> nat
     \<Rightarrow> event list \<times> nat \<Rightarrow> error + event list \<times> nat"
where
  "train_step env config train_file val_labels test_labels iters epoch i st =
     (case st of (tr, n_update) \<Rightarrow>
        (let labels = train_dl_labels env train_file (train_bs config) epoch i;
             logits = model_out env tr (TrainBatch epoch i);
             tr1 = tr @ [ModelCall (TrainBatch epoch i)]
         in case criterion env logits labels of
              Inl e \<Rightarrow> Inl e
            | Inr sq \<Rightarrow>
                (let loss = tensor_mean sq;
                     tr2 = tr1 @ [ZeroGrad, Backward loss, OptStep,
                                  SchedulerStep (of_nat epoch + of_nat i / of_nat iters)];
                     log_dict0 = AList.update ''lr'' (Num (opt_lr env tr2)) [];
                     log_dict1 = AList.update ''loss'' loss log_dict0;
                     log_dict2 = AList.update ''train_rmse'' (compute_rmse env logits labels)
                                   log_dict1;
                     n_update1 = n_update + 1
                 in if log_log_every config = 0 then Inl ZeroDivisionError
                    else if n_update1 mod log_log_every config = 0 then
                      (let tr3 = tr2 @ [NoGradEnter, ModelEval];
                           val_logits = model_out env tr3 ValGraphs;
                           tr4 = tr3 @ [ModelCall ValGraphs];
                           log_dict3 = AList.update ''val_rmse''
                                         (compute_rmse env val_logits val_labels) log_dict2;
                           test_logits = model_out env tr4 TestGraphs;
                           tr5 = tr4 @ [ModelCall TestGraphs];
                           log_dict4 = AList.update ''test_rmse''
                                         (compute_rmse env test_logits test_labels) log_dict3;
                           tr6 = tr5 @ [ModelTrain, NoGradExit]
                       in Inr (tr6 @ [WandbLog log_dict4, TorchSave], n_update1))
                    else Inr (tr2 @ [WandbLog log_dict2, TorchSave], n_update1))))"

text \<open>
  Line 117, \<^verbatim>\<open>for i, (gs, labels) in enumerate(train_dl)\<close>, over the batch indices that are
  still to come; an exception in a step ends the loop.
\<close>

fun batch_loop ::
  "env \<Rightarrow> config \<Rightarrow> string \<Rightarrow> tensor \<Rightarrow> tensor \<Rightarrow> nat \<Rightarrow> nat \<Rightarrow> nat list
     \<Rightarrow> event list \<times> nat \<Rightarrow> error + event list \<times> nat"
where
  "batch_loop env config train_file val_labels test_labels iters epoch [] st = Inr st"
| "batch_loop env config train_file val_labels test_labels iters epoch (i # rest) st =
     (case train_step env config train_file val_labels test_labels iters epoch i st of
        Inl e \<Rightarrow> Inl e
      | Inr st' \<Rightarrow>
          batch_loop env config train_file val_labels test_labels iters epoch rest st')"

text \<open>
  Line 116, \<^verbatim>\<open>for epoch in range(config.train.epochs)\<close>, over the epochs that are still to
  come. The loader yields \<^verbatim>\<open>iters = len(train_dl)\<close> batches in every epoch, numbered from 0.
\<close>

fun epoch_loop ::
  "env \<Rightarrow> config \<Rightarrow> string \<Rightarrow> tensor \<Rightarrow> tensor \<Rightarrow> nat \<Rightarrow> nat list
     \<Rightarrow> event list \<times> nat \<Rightarrow> error + event list \<times> nat"
where
  "epoch_loop env config train_file val_labels test_labels iters [] st = Inr st"
| "epoch_loop env config train_file val_labels test_labels iters (epoch # rest) st =
     (case batch_loop env config train_file val_labels test_labels iters epoch [0..<iters] st of
        Inl e \<Rightarrow> Inl e
      | Inr st' \<Rightarrow> epoch_loop env config train_file val_labels test_labels iters rest st')"

text \<open>
  Lines 65 to 161: \<^verbatim>\<open>main\<close> after its first statement, for the configuration \<open>config\<close>.
  \<open>tr0\<close> is the sequence of calls the process has made before. The device is only passed
  to the tensor library and does not appear in a recorded call.
\<close>

definition main_with_config ::
  "env \<Rightarrow> config \<Rightarrow> string \<Rightarrow> bool \<Rightarrow> bool \<Rightarrow> string \<Rightarrow> event list \<Rightarrow> error + event list"
where
  "main_with_config env config ds init_feat fg_cyc device tr0 =
     (case graph_files ds init_feat fg_cyc of
        (train_file, val_file, test_file) \<Rightarrow>
          (case load_graphs env train_file of
             None \<Rightarrow> Inl (LoadError train_file)
           | Some train_labels \<Rightarrow>
          (case load_graphs env val_file of
             None \<Rightarrow> Inl (LoadError val_file)
           | Some val_labels \<Rightarrow>
          (case load_graphs env test_file of
             None \<Rightarrow> Inl (LoadError test_file)
           | Some test_labels \<Rightarrow>
               (let tr1 = tr0 @ [LoadGraphs train_file, LoadGraphs val_file,
                                 LoadGraphs test_file,
                                 ModelInit (model_num_neurons config) (model_input_norm config)
                                   (model_nef_dp config) (model_reg_dp config),
                                 OptimizerInit (train_lr config),
                                 SchedulerInit (train_T_0 config),
                                 WandbInit (''NODEREADOUT-'' @ train_ds config)
                                   (wandb_group config),
                                 SaveConfig, WandbWatch];
                    n_update = 0;
                    iters = len_train_dl env train_file (train_bs config)
                in case epoch_loop env config train_file val_labels test_labels iters
                          [0..<train_epochs config] (tr1, n_update) of
                     Inl e \<Rightarrow> Inl e
                   | Inr (tr2, n_update') \<Rightarrow> Inr (tr2 @ [RunFinish]))))))"

text \<open>\<^verbatim>\<open>main(ds, init_feat, fg_cyc, num_neurons, input_norm, nef_dp, reg_dp, device)\<close>\<close>

definition main ::
  "env \<Rightarrow> string \<Rightarrow> bool \<Rightarrow> bool \<Rightarrow> nat list \<Rightarrow> string \<Rightarrow> rat \<Rightarrow> rat \<Rightarrow> string
     \<Rightarrow> event list \<Rightarrow> error + event list"
where
  "main env ds init_feat fg_cyc num_neurons input_norm nef_dp reg_dp device tr0 =
     main_with_config env
       (get_config ds init_feat fg_cyc num_neurons input_norm nef_dp reg_dp)
       ds init_feat fg_cyc device tr0"

subsection \<open>The script\<close>

text \<open>The parsed command line, \<^verbatim>\<open>args = p.parse_args()\<close>.\<close>

record args =
  args_ds :: string
  args_init_feat :: bool
  args_fg_cyc :: bool
  args_num_neurons :: "nat list"
  args_input_norm :: string
  args_nef_dp :: rat
  args_reg_dp :: rat
  args_device :: string

text \<open>
  Lines 176 to 179, \<^verbatim>\<open>for _ in range(3): main(args.ds, ...)\<close>, over what is left of the
  range; an exception that leaves \<^verbatim>\<open>main\<close> ends the script.
\<close>

fun script_loop :: "env \<Rightarrow> args \<Rightarrow> nat list \<Rightarrow> event list \<Rightarrow> error + event list" where
  "script_loop env a [] tr = Inr tr"
| "script_loop env a (_ # rest) tr =
     (case main env (args_ds a) (args_init_feat a) (args_fg_cyc a) (args_num_neurons a)
             (args_input_norm a) (args_nef_dp a) (args_reg_dp a) (args_device a) tr of
        Inl e \<Rightarrow> Inl e
      | Inr tr' \<Rightarrow> script_loop env a rest tr')"

definition script :: "env \<Rightarrow> args \<Rightarrow> error + event list" where
  "script env a = script_loop env a [0..<3] []"

section \<open>Observations of a run\<close>

text \<open>
  The properties below look at a run through the calls of one kind. Each of the
  following functions picks the calls that one property is about.
\<close>

text \<open>The calls to the scheduler and the optimizer steps between them.\<close>

fun scheduler_call :: "event \<Rightarrow> bool" where
  "scheduler_call (SchedulerInit T_0) = True"
| "scheduler_call OptStep = True"
| "scheduler_call (SchedulerStep x) = True"
| "scheduler_call ev = False"

text \<open>The forward passes on training batches and the checkpoints.\<close>

fun checkpoint_call :: "event \<Rightarrow> bool" where
  "checkpoint_call (ModelCall (TrainBatch epoch i)) = True"
| "checkpoint_call TorchSave = True"
| "checkpoint_call ev = False"

text \<open>The backward passes.\<close>

fun backward_call :: "event \<Rightarrow> bool" where
  "backward_call (Backward loss) = True"
| "backward_call ev = False"

text \<open>The loading of graph files.\<close>

fun load_call :: "event \<Rightarrow> bool" where
  "load_call (LoadGraphs p) = True"
| "load_call ev = False"

text \<open>
  Logging and evaluation: each optimizer step, what happens under \<^verbatim>\<open>torch.no_grad()\<close>,
  and each emitted log mapping by its keys, in the order the keys were inserted.
\<close>

datatype log_obs =
    Stepped
  | NoGradOn
  | EvalMode
  | Evaluated graphs
  | TrainMode
  | NoGradOff
  | Logged "string list"

fun log_view :: "event \<Rightarrow> log_obs list" where
  "log_view OptStep = [Stepped]"
| "log_view NoGradEnter = [NoGradOn]"
| "log_view ModelEval = [EvalMode]"
| "log_view (ModelCall ValGraphs) = [Evaluated ValGraphs]"
| "log_view (ModelCall TestGraphs) = [Evaluated TestGraphs]"
| "log_view ModelTrain = [TrainMode]"
| "log_view NoGradExit = [NoGradOff]"
| "log_view (WandbLog d) = [Logged (map fst d)]"
| "log_view ev = []"

text \<open>
  The stages of a run of \<^verbatim>\<open>main\<close>: loading, construction of the model, the optimizer and
  the scheduler, the start of the tracked run, every optimizer step, and the end of the
  tracked run.
\<close>

fun pipeline_call :: "event \<Rightarrow> bool" where
  "pipeline_call (LoadGraphs p) = True"
| "pipeline_call (ModelInit ns inorm ndp rdp) = True"
| "pipeline_call (OptimizerInit lr) = True"
| "pipeline_call (SchedulerInit T_0) = True"
| "pipeline_call (WandbInit project grp) = True"
| "pipeline_call OptStep = True"
| "pipeline_call RunFinish = True"
| "pipeline_call ev = False"

text \<open>
  What one run of \<^verbatim>\<open>main\<close> shows through \<^const>\<open>pipeline_call\<close> when it returns: the three
  files are loaded, the model, the optimizer and the scheduler are built, the tracked run
  is started, the optimizer is stepped once for every batch of every epoch, and the
  tracked run is finished.
\<close>

definition pipeline_stages :: "env \<Rightarrow> config \<Rightarrow> string \<Rightarrow> bool \<Rightarrow> bool \<Rightarrow> event list" where
  "pipeline_stages env config ds init_feat fg_cyc =
     (case graph_files ds init_feat fg_cyc of
        (train_file, val_file, test_file) \<Rightarrow>
          [LoadGraphs train_file, LoadGraphs val_file, LoadGraphs test_file,
           ModelInit (model_num_neurons config) (model_input_norm config)
             (model_nef_dp config) (model_reg_dp config),
           OptimizerInit (train_lr config),
           SchedulerInit (train_T_0 config),
           WandbInit (''NODEREADOUT-'' @ train_ds config) (wandb_group config)]
          @ concat (map (\<lambda>epoch. concat (map (\<lambda>i. [OptStep])
                      [0..<len_train_dl env train_file (train_bs config)]))
              [0..<train_epochs config])
          @ [RunFinish])"

section \<open>A small run\<close>

text \<open>
  Concrete collaborators on which the definitions above can be evaluated: a batch of one
  graph with two atoms and one functional group, sub-modules that pass their input on
  (the message-passing layer also stores the edge embedding on the graph), and a data
  set whose loader yields two batches per epoch.
\<close>

definition example_graph :: graph where
  "example_graph =
     \<lparr>node_frames = (\<lambda>_. Map.empty)(''atom'' := [''feat'' \<mapsto> [[2], [5]]],
                                       ''func_group'' := [''feat'' \<mapsto> [[3]]]),
      edge_frames = (\<lambda>_. Map.empty)(''interacts'' := [''feat'' \<mapsto> [[1], [1]]]),
      batch_num_nodes = (\<lambda>_. [])(''atom'' := [2], ''func_group'' := [1])\<rparr>"

definition example_wsam :: wsam where
  "example_wsam = \<lparr>wsam_in_feats = 1, wsam_score = (\<lambda>h. 1), wsam_empty_max = 0\<rparr>"

definition example_calls :: net_calls where
  "example_calls =
     \<lparr>node_encoder_call = (\<lambda>t. t),
      edge_encoder_call = (\<lambda>t. t),
      fg_encoder_call = (\<lambda>t. t),
      gnn_l_call = (\<lambda>g unf uef uff.
         (g\<lparr>edge_frames := (edge_frames g)
               (''interacts'' := (edge_frames g ''interacts'')(''h'' \<mapsto> uef))\<rparr>,
          unf, uef, uff)),
      node_readout_call = WeightedSumAndMax_forward example_wsam,
      fg_readout_call = WeightedSumAndMax_forward example_wsam,
      reg_call = (\<lambda>t. t)\<rparr>"

text \<open>
  A message-passing layer for the small graph, with the module configurations that the
  constructor builds for hidden dimensions 1 and learned functions that sum their input.
\<close>

definition example_hypermpnn :: hypermpnn where
  "example_hypermpnn =
     (let a = gnn_l (Net_init 1 1 1 1 [128, 64] ''batch'' 0 0 1 1 1 ''LeakyReLU'')
      in \<lparr>hp_em = \<lparr>mlp_cfg = hm_em a, mlp_map = (\<lambda>x. [sum_list x])\<rparr>,
          hp_nm = \<lparr>mlp_cfg = hm_nm a, mlp_map = (\<lambda>x. [sum_list x])\<rparr>,
          hp_am = \<lparr>mlp_cfg = hm_am a, mlp_map = (\<lambda>x. [2 * sum_list x])\<rparr>,
          hp_fem = \<lparr>mlp_cfg = hm_fem a, mlp_map = (\<lambda>x. [sum_list x])\<rparr>,
          hp_fnm = \<lparr>mlp_cfg = hm_fnm a, mlp_map = (\<lambda>x. [sum_list x])\<rparr>,
          hp_fam = \<lparr>mlp_cfg = hm_fam a, mlp_map = (\<lambda>x. [sum_list x])\<rparr>\<rparr>)"

definition example_env :: env where
  "example_env =
     \<lparr>load_graphs = [''data/d_train.bin'' \<mapsto> [[1, 2], [0, 0]],
                     ''data/d_val.bin'' \<mapsto> [[3, 3]],
                     ''data/d_test.bin'' \<mapsto> [[4, 4]]],
      len_train_dl = (\<lambda>p bs. 2),
      train_dl_labels = (\<lambda>p bs e i. [[1, 2]]),
      model_out = (\<lambda>tr gs. [[3, 1]]),
      opt_lr = (\<lambda>tr. 1 / 1000),
      compute_rmse = (\<lambda>a b. Num 0),
      mse_broadcast = (\<lambda>a b. Inl RuntimeError)\<rparr>"

definition example_config :: config where
  "example_config =
     (get_config ''d'' True True [128, 64] ''batch'' 0 0)
       \<lparr>train_epochs := 2, log_log_every := 3\<rparr>"

definition example_args :: args where
  "example_args =
     \<lparr>args_ds = ''d'', args_init_feat = True, args_fg_cyc = True,
      args_num_neurons = [128, 64], args_input_norm = ''batch'',
      args_nef_dp = 0, args_reg_dp = 0, args_device = ''cuda:1''\<rparr>"

section \<open>Properties of the constructor\<close>

lemma gnn_l_am:
  "hm_am (gnn_l (Net_init od ni ei fi ns inorm ndp rdp nh eh fh act)) =
     MLP_full (nh * 2 + eh) 1 ndp ns ''Identity'' inorm"
  by (simp add: Net_init_def Let_def)

lemma gnn_l_em:
  "hm_em (gnn_l (Net_init od ni ei fi ns inorm ndp rdp nh eh fh act)) =
     MLP_full (nh * 2 + eh) eh ndp ns act inorm"
  by (simp add: Net_init_def Let_def)

text \<open>
  C1: the functional-group attention network, the gate on atom--func_group membership
  edges, is to have output dimension 1 (a scalar gate per membership edge) and identity
  activation. The constructor does give it identity activation, but for hidden dimensions
  64 it builds \<^verbatim>\<open>fam\<close> with output dimension 64: \<^verbatim>\<open>fam\<close> is \<^verbatim>\<open>fem\<close> with nothing but the hidden
  activation changed, while the atom--atom gate \<^verbatim>\<open>am\<close> of the same constructor has output
  dimension 1.
\<close>

theorem fam_output_dim_at_64:
  "mlp_output_dim (hm_fam (gnn_l
     (Net_init 1 100 7 100 [128, 64] ''batch'' 0 0 64 64 64 ''LeakyReLU''))) = 64
   \<and> mlp_hidden_act (hm_fam (gnn_l
     (Net_init 1 100 7 100 [128, 64] ''batch'' 0 0 64 64 64 ''LeakyReLU''))) = Some ''Identity''
   \<and> hm_fam (gnn_l (Net_init 1 100 7 100 [128, 64] ''batch'' 0 0 64 64 64 ''LeakyReLU''))
       = (hm_fem (gnn_l (Net_init 1 100 7 100 [128, 64] ''batch'' 0 0 64 64 64 ''LeakyReLU'')))
           \<lparr>mlp_hidden_act := Some ''Identity''\<rparr>
   \<and> mlp_output_dim (hm_am (gnn_l
     (Net_init 1 100 7 100 [128, 64] ''batch'' 0 0 64 64 64 ''LeakyReLU''))) = 1"
  by (simp add: Net_init_def Let_def MLP_full_def)

section \<open>Properties of the message-passing layer on atom--atom edges\<close>

lemma MLP_forward_Inr:
  "MLP_forward m x = Inr y \<Longrightarrow>
     length x = mlp_input_dim (mlp_cfg m) \<and> y = mlp_map m x
     \<and> length y = mlp_output_dim (mlp_cfg m)"
  by (auto simp: MLP_forward_def split: if_splits)

lemma atom_edge_Inr:
  assumes "atom_edge h nf ef k s d = Inr r"
  shows "s < length nf \<and> d < length nf \<and> k < length ef
       \<and> MLP_forward (hp_em h) (nf ! s @ nf ! d @ ef ! k) = Inr (fst r)
       \<and> MLP_forward (hp_am h) (nf ! s @ nf ! d @ ef ! k) = Inr (snd r)"
  using assms
  by (auto simp: atom_edge_def Let_def split: if_splits sum.splits)

lemma atom_edge_loop_Inr:
  "atom_edge_loop h nf ef xs = Inr rs \<Longrightarrow>
     length rs = length xs
     \<and> (\<forall>j<length xs.
           atom_edge h nf ef (fst (xs ! j)) (fst (snd (xs ! j))) (snd (snd (xs ! j)))
             = Inr (rs ! j))"
proof (induction xs arbitrary: rs)
  case Nil
  then show ?case by simp
next
  case (Cons x xs)
  obtain k s d where x: "x = (k, s, d)" by (cases x)
  from Cons.prems x obtain r rs' where
    r: "atom_edge h nf ef k s d = Inr r" and
    l: "atom_edge_loop h nf ef xs = Inr rs'" and
    rs: "rs = r # rs'"
    by (auto split: sum.splits)
  from Cons.IH [OF l] have
    len: "length rs' = length xs" and
    ih: "\<forall>j<length xs.
           atom_edge h nf ef (fst (xs ! j)) (fst (snd (xs ! j))) (snd (snd (xs ! j)))
             = Inr (rs' ! j)"
    by simp_all
  show ?case
  proof (intro conjI allI impI)
    show "length rs = length (x # xs)" by (simp add: rs len)
  next
    fix j assume "j < length (x # xs)"
    then show "atom_edge h nf ef (fst ((x # xs) ! j)) (fst (snd ((x # xs) ! j)))
                 (snd (snd ((x # xs) ! j))) = Inr (rs ! j)"
      using r ih by (cases j) (simp_all add: x rs)
  qed
qed

text \<open>
  C8: in a layer whose edge-update and gate modules have the configurations that the
  constructor builds for \<^verbatim>\<open>em\<close> and \<^verbatim>\<open>am\<close>, a pass over the atom--atom edges that returns
  has computed, for every atom--atom edge, one gate with a single component. The gate is
  the gate module's learned function applied to the concatenation of the source atom
  embedding, the destination atom embedding and the current edge embedding, which is the
  very vector the edge-update module is applied to; this vector has width
  \<open>2 * node_hidden_dim + edge_hidden_dim\<close>, the declared input dimension of both modules.
  The gate module is configured with hidden activation \<^verbatim>\<open>'Identity'\<close> whatever activation the
  constructor is given, and with output dimension 1. The layer's steps are the ones
  modelled from the specification.
\<close>

theorem atom_gate_scalar_per_edge:
  assumes em: "mlp_cfg (hp_em h)
                 = hm_em (gnn_l (Net_init od ni ei fi ns inorm ndp rdp nh eh fh act))"
      and am: "mlp_cfg (hp_am h)
                 = hm_am (gnn_l (Net_init od ni ei fi ns inorm ndp rdp nh eh fh act))"
      and run: "HyperMPNN_atom_edges h nf ef edges = Inr res"
      and k: "k < length edges"
      and edge: "edges ! k = (s, d)"
  shows "length res = length edges
       \<and> s < length nf \<and> d < length nf \<and> k < length ef
       \<and> length (nf ! s @ nf ! d @ ef ! k) = 2 * nh + eh
       \<and> fst (res ! k) = mlp_map (hp_em h) (nf ! s @ nf ! d @ ef ! k)
       \<and> snd (res ! k) = mlp_map (hp_am h) (nf ! s @ nf ! d @ ef ! k)
       \<and> length (snd (res ! k)) = 1
       \<and> length (fst (res ! k)) = eh
       \<and> mlp_hidden_act (mlp_cfg (hp_am h)) = Some ''Identity''
       \<and> mlp_input_dim (mlp_cfg (hp_am h)) = 2 * nh + eh
       \<and> mlp_input_dim (mlp_cfg (hp_am h)) = mlp_input_dim (mlp_cfg (hp_em h))
       \<and> mlp_output_dim (mlp_cfg (hp_am h)) = 1"
proof -
  let ?x = "nf ! s @ nf ! d @ ef ! k"
  from run have loop: "atom_edge_loop h nf ef (enumerate 0 edges) = Inr res"
    by (simp add: HyperMPNN_atom_edges_def)
  from atom_edge_loop_Inr [OF loop] have
    len: "length res = length edges" and
    all: "\<forall>j<length edges.
           atom_edge h nf ef (fst (enumerate 0 edges ! j))
             (fst (snd (enumerate 0 edges ! j))) (snd (snd (enumerate 0 edges ! j)))
             = Inr (res ! j)"
    by simp_all
  from k have "enumerate 0 edges ! k = (k, edges ! k)"
    by (simp add: nth_enumerate_eq)
  with all k edge have "atom_edge h nf ef k s d = Inr (res ! k)" by auto
  from atom_edge_Inr [OF this] have
    idx: "s < length nf" "d < length nf" "k < length ef" and
    e: "MLP_forward (hp_em h) ?x = Inr (fst (res ! k))" and
    a: "MLP_forward (hp_am h) ?x = Inr (snd (res ! k))"
    by simp_all
  have cfg_am: "mlp_cfg (hp_am h) = MLP_full (nh * 2 + eh) 1 ndp ns ''Identity'' inorm"
    by (simp add: am gnn_l_am)
  have cfg_em: "mlp_cfg (hp_em h) = MLP_full (nh * 2 + eh) eh ndp ns act inorm"
    by (simp add: em gnn_l_em)
  from cfg_am cfg_em have cfg:
    "mlp_hidden_act (mlp_cfg (hp_am h)) = Some ''Identity''"
    "mlp_input_dim (mlp_cfg (hp_am h)) = 2 * nh + eh"
    "mlp_input_dim (mlp_cfg (hp_am h)) = mlp_input_dim (mlp_cfg (hp_em h))"
    "mlp_output_dim (mlp_cfg (hp_am h)) = 1"
    "mlp_output_dim (mlp_cfg (hp_em h)) = eh"
    by (simp_all add: MLP_full_def)
  from MLP_forward_Inr [OF a] have
    a1: "length ?x = mlp_input_dim (mlp_cfg (hp_am h))" and
    ga: "snd (res ! k) = mlp_map (hp_am h) ?x" and
    a3: "length (snd (res ! k)) = mlp_output_dim (mlp_cfg (hp_am h))"
    by blast+
  from MLP_forward_Inr [OF e] have
    ge: "fst (res ! k) = mlp_map (hp_em h) ?x" and
    e3: "length (fst (res ! k)) = mlp_output_dim (mlp_cfg (hp_em h))"
    by blast+
  from a1 cfg(2) have xa: "length ?x = 2 * nh + eh" by (simp only:)
  from a3 cfg(4) have la: "length (snd (res ! k)) = 1" by (simp only:)
  from e3 cfg(5) have le: "length (fst (res ! k)) = eh" by (simp only:)
  from len idx xa ge ga la le cfg(1-4) show ?thesis by blast
qed

theorem atom_gate_scalar_per_edge_witness:
  "HyperMPNN_atom_edges example_hypermpnn [[2], [5]] [[1], [3]] [(0, 1), (1, 0)]
     = Inr [([8], [16]), ([10], [20])]
   \<and> length ([[2], [5]] ! 1 @ [[2], [5]] ! 0 @ [[1], [3 :: rat]] ! 1) = 2 * 1 + 1
   \<and> snd ([([8], [16]), ([10 :: rat], [20 :: rat])] ! 1)
       = mlp_map (hp_am example_hypermpnn) ([[2], [5]] ! 1 @ [[2], [5]] ! 0 @ [[1], [3]] ! 1)
   \<and> fst ([([8], [16]), ([10 :: rat], [20 :: rat])] ! 1)
       = mlp_map (hp_em example_hypermpnn) ([[2], [5]] ! 1 @ [[2], [5]] ! 0 @ [[1], [3]] ! 1)
   \<and> length (snd ([([8], [16]), ([10 :: rat], [20 :: rat])] ! 1)) = 1
   \<and> mlp_hidden_act (mlp_cfg (hp_am example_hypermpnn)) = Some ''Identity''"
proof -
  let ?net = "Net_init 1 1 1 1 [128, 64] ''batch'' 0 0 1 1 1 ''LeakyReLU''"
  have em: "mlp_cfg (hp_em example_hypermpnn) = hm_em (gnn_l ?net)"
    and am: "mlp_cfg (hp_am example_hypermpnn) = hm_am (gnn_l ?net)"
    by (simp_all add: example_hypermpnn_def Let_def)
  have run: "HyperMPNN_atom_edges example_hypermpnn [[2], [5]] [[1], [3]] [(0, 1), (1, 0)]
               = Inr [([8], [16]), ([10], [20])]"
    by (simp add: HyperMPNN_atom_edges_def enumerate_eq_zip upt_conv_Cons atom_edge_def
          MLP_forward_def example_hypermpnn_def Net_init_def MLP_full_def Let_def)
  have k: "1 < length [(0 :: nat, 1 :: nat), (1, 0)]" by simp
  have edge: "[(0 :: nat, 1 :: nat), (1, 0)] ! 1 = (1, 0)" by simp
  from atom_gate_scalar_per_edge [OF em am run k edge] run
  show ?thesis by blast
qed

section \<open>Properties of the forward pass\<close>

lemma length_weighted_sum:
  "\<forall>h\<in>set hs. length h = wsam_in_feats w \<Longrightarrow> length (weighted_sum w hs) = wsam_in_feats w"
  by (induction hs) (simp_all add: weighted_sum_def)

lemma length_max_nodes:
  "\<forall>h\<in>set hs. length h = wsam_in_feats w \<Longrightarrow> length (max_nodes w hs) = wsam_in_feats w"
  by (induction w hs rule: max_nodes.induct) simp_all

lemma set_segments: "hs \<in> set (segments ns xs) \<Longrightarrow> set hs \<subseteq> set xs"
proof (induction ns arbitrary: xs)
  case Nil
  then show ?case by simp
next
  case (Cons n ns)
  then show ?case
    by (auto dest: in_set_takeD in_set_dropD)
qed

lemma length_segments: "length (segments ns xs) = length ns"
  by (induction ns arbitrary: xs) simp_all

lemma WeightedSumAndMax_forward_row_length:
  assumes "\<forall>h\<in>set feats. length h = wsam_in_feats w"
      and "row \<in> set (WeightedSumAndMax_forward w g feats n_type)"
  shows "length row = 2 * wsam_in_feats w"
proof -
  from assms(2) obtain hs where hs: "hs \<in> set (segments (batch_num_nodes g n_type) feats)"
    and row: "row = weighted_sum w hs @ max_nodes w hs"
    by (auto simp: WeightedSumAndMax_forward_def)
  from hs assms(1) have "\<forall>h\<in>set hs. length h = wsam_in_feats w"
    using set_segments by blast
  then show ?thesis
    by (simp add: row length_weighted_sum length_max_nodes)
qed

lemma length_WeightedSumAndMax_forward:
  "length (WeightedSumAndMax_forward w g feats n_type) = length (batch_num_nodes g n_type)"
  by (simp add: WeightedSumAndMax_forward_def length_segments)

text \<open>
  C9: when \<^verbatim>\<open>Net.forward\<close> returns, the node and edge feature data of the graph are what they
  were before the call, whatever the message-passing layer stored on the graph; the
  embeddings written under \<^verbatim>\<open>'h'\<close> for the atoms and the functional groups are there at the
  end of the \<^verbatim>\<open>with\<close> block and are gone after it.
\<close>

theorem forward_local_scope:
  assumes "gnn_l_call m g (node_encoder_call m nf) (edge_encoder_call m ef) (fg_encoder_call m ff)
             = (g1, unf, uef, uff)"
      and "forward m g nf ef ff = Inr (g', y)"
  shows "node_frames g' = node_frames g \<and> edge_frames g' = edge_frames g
       \<and> (\<exists>g3. forward_body m nf ef ff g = Inr (g3, y)
              \<and> node_frames g3 ''atom'' ''h'' = Some unf
              \<and> node_frames g3 ''func_group'' ''h'' = Some uff)"
  using assms
  by (auto simp: forward_def local_scope_def forward_body_def forward_readout_def Let_def
        set_ndata_def split: sum.splits prod.splits)

text \<open>The small forward pass, evaluated.\<close>

lemma example_forward:
  "forward example_calls example_graph [[2], [5]] [[1], [1]] [[3]]
     = Inr (example_graph, [[7, 5, 3, 3]])"
  by (simp add: forward_def local_scope_def forward_body_def forward_readout_def
        example_calls_def example_graph_def example_wsam_def WeightedSumAndMax_forward_def
        set_ndata_def torch_cat_last_def weighted_sum_def Let_def)

theorem forward_local_scope_witness:
  "forward example_calls example_graph [[2], [5]] [[1], [1]] [[3]]
     = Inr (example_graph, [[7, 5, 3, 3]])
   \<and> node_frames example_graph ''atom'' ''h'' = None
   \<and> (\<exists>g3. forward_body example_calls [[2], [5]] [[1], [1]] [[3]] example_graph
               = Inr (g3, [[7, 5, 3, 3]])
          \<and> node_frames g3 ''atom'' ''h'' = Some [[2], [5]]
          \<and> node_frames g3 ''func_group'' ''h'' = Some [[3]])"
proof -
  have gnn: "gnn_l_call example_calls example_graph
               (node_encoder_call example_calls [[2], [5]])
               (edge_encoder_call example_calls [[1], [1]])
               (fg_encoder_call example_calls [[3]])
             = (example_graph\<lparr>edge_frames := (edge_frames example_graph)
                  (''interacts'' := (edge_frames example_graph ''interacts'')
                     (''h'' \<mapsto> [[1], [1]]))\<rparr>,
                [[2], [5]], [[1], [1]], [[3]])"
    by (simp add: example_calls_def)
  have none: "node_frames example_graph ''atom'' ''h'' = None"
    by (simp add: example_graph_def)
  from forward_local_scope [OF gnn example_forward] example_forward none
  show ?thesis by blast
qed

text \<open>
  C7: the tensor handed to the regressor is the atom readout and the functional-group
  readout joined row by row, each readout row being a weighted-sum vector followed by an
  elementwise-max vector over the nodes of that type in one graph; with atom embeddings of
  width \<open>node_hidden_dim\<close> and functional-group embeddings of width \<open>fg_hidden_dim\<close>, every
  row has the width the regressor is declared with, \<open>2 * (node_hidden_dim + fg_hidden_dim)\<close>.
  The readout is the one modelled from the specification.
\<close>

theorem regressor_input_dim:
  assumes node_readout: "node_readout_call m = WeightedSumAndMax_forward wa"
    and fg_readout: "fg_readout_call m = WeightedSumAndMax_forward wg"
    and wa: "wsam_in_feats wa
               = node_readout_func (Net_init od ni ei fi ns inorm ndp rdp nh eh fh act)"
    and wg: "wsam_in_feats wg
               = fg_readout_func (Net_init od ni ei fi ns inorm ndp rdp nh eh fh act)"
    and gnn: "gnn_l_call m g (node_encoder_call m nf) (edge_encoder_call m ef)
                (fg_encoder_call m ff) = (g1, unf, uef, uff)"
    and unf: "\<forall>h\<in>set unf. length h = nh"
    and uff: "\<forall>h\<in>set uff. length h = fh"
    and ret: "forward m g nf ef ff = Inr (g', y)"
  shows "\<exists>g3 readout.
           forward_readout m g nf ef ff = Inr (g3, readout)
         \<and> y = reg_call m readout
         \<and> readout =
             map2 (@)
               (map (\<lambda>hs. weighted_sum wa hs @ max_nodes wa hs)
                  (segments (batch_num_nodes g3 ''atom'') unf))
               (map (\<lambda>hs. weighted_sum wg hs @ max_nodes wg hs)
                  (segments (batch_num_nodes g3 ''func_group'') uff))
         \<and> (\<forall>row\<in>set readout.
               length row
                 = mlp_input_dim (reg (Net_init od ni ei fi ns inorm ndp rdp nh eh fh act)))
         \<and> mlp_input_dim (reg (Net_init od ni ei fi ns inorm ndp rdp nh eh fh act))
             = 2 * (nh + fh)"
proof -
  let ?g3 = "set_ndata (set_ndata g1 ''atom'' ''h'' unf) ''func_group'' ''h'' uff"
  let ?a = "WeightedSumAndMax_forward wa ?g3 unf ''atom''"
  let ?b = "WeightedSumAndMax_forward wg ?g3 uff ''func_group''"
  from wa wg have feats: "wsam_in_feats wa = nh" "wsam_in_feats wg = fh"
    by (simp_all add: Net_init_def Let_def)
  have fr0: "forward_readout m g nf ef ff =
        (case torch_cat_last ?a ?b of Inl e \<Rightarrow> Inl e | Inr readout \<Rightarrow> Inr (?g3, readout))"
    by (simp add: forward_readout_def Let_def gnn node_readout fg_readout)
  from ret obtain g3' readout where
    fr: "forward_readout m g nf ef ff = Inr (g3', readout)" and
    y: "y = reg_call m readout"
    by (auto simp: forward_def local_scope_def forward_body_def split: sum.splits)
  from fr fr0 have g3': "g3' = ?g3" and cat: "torch_cat_last ?a ?b = Inr readout"
    by (simp_all split: sum.splits)
  from cat have r: "readout = map2 (@) ?a ?b"
    by (simp add: torch_cat_last_def split: if_splits)
  have rows: "length row = 2 * (nh + fh)" if "row \<in> set readout" for row
  proof -
    from that r obtain ra rb where z: "(ra, rb) \<in> set (zip ?a ?b)" and row: "row = ra @ rb"
      by auto
    from z have ra: "ra \<in> set ?a" by (rule set_zip_leftD)
    from z have rb: "rb \<in> set ?b" by (rule set_zip_rightD)
    from unf feats have "\<forall>h\<in>set unf. length h = wsam_in_feats wa" by simp
    from WeightedSumAndMax_forward_row_length [OF this ra] feats
    have la: "length ra = 2 * nh" by simp
    from uff feats have "\<forall>h\<in>set uff. length h = wsam_in_feats wg" by simp
    from WeightedSumAndMax_forward_row_length [OF this rb] feats
    have lb: "length rb = 2 * fh" by simp
    from row la lb show ?thesis by simp
  qed
  have dim: "mlp_input_dim (reg (Net_init od ni ei fi ns inorm ndp rdp nh eh fh act))
               = 2 * (nh + fh)"
    by (simp add: Net_init_def Let_def MLP_dp_def)
  have r': "readout =
             map2 (@)
               (map (\<lambda>hs. weighted_sum wa hs @ max_nodes wa hs)
                  (segments (batch_num_nodes ?g3 ''atom'') unf))
               (map (\<lambda>hs. weighted_sum wg hs @ max_nodes wg hs)
                  (segments (batch_num_nodes ?g3 ''func_group'') uff))"
    using r unfolding WeightedSumAndMax_forward_def .
  have "\<forall>row\<in>set readout.
               length row
                 = mlp_input_dim (reg (Net_init od ni ei fi ns inorm ndp rdp nh eh fh act))"
    using rows dim by simp
  with fr [unfolded g3'] y r' dim show ?thesis by blast
qed

theorem regressor_input_dim_witness:
  "forward example_calls example_graph [[2], [5]] [[1], [1]] [[3]]
     = Inr (example_graph, [[7, 5, 3, 3]])
   \<and> length [7, 5, 3, 3 :: rat]
       = mlp_input_dim (reg (Net_init 1 1 1 1 [128, 64] ''batch'' 0 0 1 1 1 ''LeakyReLU''))
   \<and> mlp_input_dim (reg (Net_init 1 1 1 1 [128, 64] ''batch'' 0 0 1 1 1 ''LeakyReLU'')) = 4"
proof -
  let ?net = "Net_init 1 1 1 1 [128, 64] ''batch'' 0 0 1 1 1 ''LeakyReLU''"
  have h1: "node_readout_call example_calls = WeightedSumAndMax_forward example_wsam"
    and h2: "fg_readout_call example_calls = WeightedSumAndMax_forward example_wsam"
    by (simp_all add: example_calls_def)
  have h3: "wsam_in_feats example_wsam = node_readout_func ?net"
    and h4: "wsam_in_feats example_wsam = fg_readout_func ?net"
    by (simp_all add: example_wsam_def Net_init_def Let_def)
  have gnn: "gnn_l_call example_calls example_graph
               (node_encoder_call example_calls [[2], [5]])
               (edge_encoder_call example_calls [[1], [1]])
               (fg_encoder_call example_calls [[3]])
             = (example_graph\<lparr>edge_frames := (edge_frames example_graph)
                  (''interacts'' := (edge_frames example_graph ''interacts'')
                     (''h'' \<mapsto> [[1], [1]]))\<rparr>,
                [[2], [5]], [[1], [1]], [[3]])"
    by (simp add: example_calls_def)
  have h5: "\<forall>h\<in>set [[2], [5 :: rat]]. length h = 1" and h6: "\<forall>h\<in>set [[3 :: rat]]. length h = 1"
    by simp_all
  from regressor_input_dim [OF h1 h2 h3 h4 gnn h5 h6 example_forward]
  obtain g3 readout where
    y: "[[7, 5, 3, 3]] = reg_call example_calls readout" and
    len: "\<forall>row\<in>set readout. length row = mlp_input_dim (reg ?net)" and
    dim: "mlp_input_dim (reg ?net) = 2 * (1 + 1)"
    by blast
  from y have "readout = [[7, 5, 3, 3]]" by (simp add: example_calls_def)
  with len dim example_forward show ?thesis by simp
qed

section \<open>Properties of the training script\<close>

subsection \<open>The loops\<close>

lemma upt_split: "[a..<a + (m + k)] = [a..<a + m] @ [a + m..<a + m + k]" for a m k :: nat
  using upt_add_eq_append [of a "a + m" k] by (simp add: add.assoc)

lemma train_step_counter:
  "train_step env config tf vy ty iters epoch i (tr, n) = Inr (tr', n') \<Longrightarrow> n' = Suc n"
  by (auto simp: train_step_def Let_def split: sum.splits if_splits)

lemma batch_loop_by_index:
  assumes step: "\<And>i tr n tr' n'.
      train_step env config tf vy ty iters epoch i (tr, n) = Inr (tr', n')
        \<Longrightarrow> V tr' = V tr @ g i"
    and run: "batch_loop env config tf vy ty iters epoch is (tr, n) = Inr (tr', n')"
  shows "V tr' = V tr @ concat (map g is)"
  using run
proof (induction "is" arbitrary: tr n)
  case Nil
  then show ?case by simp
next
  case (Cons i rest)
  from Cons.prems obtain tr1 n1 where
    s: "train_step env config tf vy ty iters epoch i (tr, n) = Inr (tr1, n1)" and
    r: "batch_loop env config tf vy ty iters epoch rest (tr1, n1) = Inr (tr', n')"
    by (auto split: sum.splits)
  from Cons.IH [OF r] step [OF s] show ?case by simp
qed

lemma epoch_loop_by_index:
  assumes step: "\<And>epoch i tr n tr' n'.
      train_step env config tf vy ty iters epoch i (tr, n) = Inr (tr', n')
        \<Longrightarrow> V tr' = V tr @ g epoch i"
    and run: "epoch_loop env config tf vy ty iters es (tr, n) = Inr (tr', n')"
  shows "V tr' = V tr @ concat (map (\<lambda>epoch. concat (map (g epoch) [0..<iters])) es)"
  using run
proof (induction es arbitrary: tr n)
  case Nil
  then show ?case by simp
next
  case (Cons epoch rest)
  from Cons.prems obtain tr1 n1 where
    b: "batch_loop env config tf vy ty iters epoch [0..<iters] (tr, n) = Inr (tr1, n1)" and
    r: "epoch_loop env config tf vy ty iters rest (tr1, n1) = Inr (tr', n')"
    by (auto split: sum.splits)
  have "V tr1 = V tr @ concat (map (g epoch) [0..<iters])"
    by (rule batch_loop_by_index [where V = V and g = "g epoch", OF _ b]) (rule step)
  with Cons.IH [OF r] show ?case by simp
qed

lemma batch_loop_by_counter:
  assumes step: "\<And>i tr n tr'.
      train_step env config tf vy ty iters epoch i (tr, n) = Inr (tr', Suc n)
        \<Longrightarrow> V tr' = V tr @ h (Suc n)"
    and run: "batch_loop env config tf vy ty iters epoch is (tr, n) = Inr (tr', n')"
  shows "n' = n + length is \<and> V tr' = V tr @ concat (map h [Suc n..<Suc n + length is])"
  using run
proof (induction "is" arbitrary: tr n)
  case Nil
  then show ?case by simp
next
  case (Cons i rest)
  from Cons.prems obtain tr1 n1 where
    s: "train_step env config tf vy ty iters epoch i (tr, n) = Inr (tr1, n1)" and
    r: "batch_loop env config tf vy ty iters epoch rest (tr1, n1) = Inr (tr', n')"
    by (auto split: sum.splits)
  from s have n1: "n1 = Suc n" by (rule train_step_counter)
  from s n1 have v: "V tr1 = V tr @ h (Suc n)" by (simp add: step)
  from Cons.IH [OF r] n1 have
    "n' = Suc n + length rest" and
    "V tr' = V tr1 @ concat (map h [Suc (Suc n)..<Suc (Suc n) + length rest])"
    by simp_all
  moreover have "[Suc n..<Suc n + length (i # rest)]
                   = Suc n # [Suc (Suc n)..<Suc (Suc n) + length rest]"
    by (subst upt_rec) simp
  ultimately show ?case using v by simp
qed

lemma epoch_loop_by_counter:
  assumes step: "\<And>epoch i tr n tr'.
      train_step env config tf vy ty iters epoch i (tr, n) = Inr (tr', Suc n)
        \<Longrightarrow> V tr' = V tr @ h (Suc n)"
    and run: "epoch_loop env config tf vy ty iters es (tr, n) = Inr (tr', n')"
  shows "n' = n + length es * iters
       \<and> V tr' = V tr @ concat (map h [Suc n..<Suc n + length es * iters])"
  using run
proof (induction es arbitrary: tr n)
  case Nil
  then show ?case by simp
next
  case (Cons epoch rest)
  from Cons.prems obtain tr1 n1 where
    b: "batch_loop env config tf vy ty iters epoch [0..<iters] (tr, n) = Inr (tr1, n1)" and
    r: "epoch_loop env config tf vy ty iters rest (tr1, n1) = Inr (tr', n')"
    by (auto split: sum.splits)
  have "n1 = n + length [0..<iters]
      \<and> V tr1 = V tr @ concat (map h [Suc n..<Suc n + length [0..<iters]])"
    by (rule batch_loop_by_counter [where V = V and h = h, OF _ b]) (rule step)
  then have
    n1: "n1 = n + iters" and
    v1: "V tr1 = V tr @ concat (map h [Suc n..<Suc n + iters])"
    by simp_all
  from Cons.IH [OF r] n1 have
    n': "n' = n + iters + length rest * iters" and
    v': "V tr' = V tr1 @ concat (map h [Suc (n + iters)..<Suc (n + iters) + length rest * iters])"
    by simp_all
  have e: "[Suc n..<Suc n + length (epoch # rest) * iters]
          = [Suc n..<Suc n + iters] @ [Suc n + iters..<Suc n + iters + length rest * iters]"
  proof -
    have "length (epoch # rest) * iters = iters + length rest * iters" by simp
    then show ?thesis by (simp only: upt_split)
  qed
  have "V tr' = V tr @ concat (map h ([Suc n..<Suc n + iters]
                  @ [Suc n + iters..<Suc n + iters + length rest * iters]))"
    using v' v1 by (simp only: map_append concat_append append_assoc add_Suc)
  then have "V tr' = V tr @ concat (map h [Suc n..<Suc n + length (epoch # rest) * iters])"
    by (simp only: e)
  moreover from n' have "n' = n + length (epoch # rest) * iters" by simp
  ultimately show ?case by blast
qed

lemma main_with_config_run:
  assumes "main_with_config env config ds init_feat fg_cyc device tr0 = Inr tr'"
  obtains train_file val_file test_file train_labels val_labels test_labels tr2 n' where
    "graph_files ds init_feat fg_cyc = (train_file, val_file, test_file)"
    "load_graphs env train_file = Some train_labels"
    "load_graphs env val_file = Some val_labels"
    "load_graphs env test_file = Some test_labels"
    "epoch_loop env config train_file val_labels test_labels
       (len_train_dl env train_file (train_bs config)) [0..<train_epochs config]
       (tr0 @ [LoadGraphs train_file, LoadGraphs val_file, LoadGraphs test_file,
               ModelInit (model_num_neurons config) (model_input_norm config)
                 (model_nef_dp config) (model_reg_dp config),
               OptimizerInit (train_lr config),
               SchedulerInit (train_T_0 config),
               WandbInit (''NODEREADOUT-'' @ train_ds config) (wandb_group config),
               SaveConfig, WandbWatch], 0) = Inr (tr2, n')"
    "tr' = tr2 @ [RunFinish]"
  using assms
  by (auto simp: main_with_config_def Let_def split: prod.splits option.splits sum.splits)

lemma main_with_config_view:
  assumes step: "\<And>tf vy ty iters epoch i tr n tr' n'.
      train_step env config tf vy ty iters epoch i (tr, n) = Inr (tr', n')
        \<Longrightarrow> filter P tr' = filter P tr @ g epoch i"
    and run: "main_with_config env config ds init_feat fg_cyc device tr0 = Inr tr'"
  shows "filter P tr' = filter P tr0
           @ filter P [LoadGraphs (fst (graph_files ds init_feat fg_cyc)),
                 LoadGraphs (fst (snd (graph_files ds init_feat fg_cyc))),
                 LoadGraphs (snd (snd (graph_files ds init_feat fg_cyc))),
                 ModelInit (model_num_neurons config) (model_input_norm config)
                   (model_nef_dp config) (model_reg_dp config),
                 OptimizerInit (train_lr config),
                 SchedulerInit (train_T_0 config),
                 WandbInit (''NODEREADOUT-'' @ train_ds config) (wandb_group config),
                 SaveConfig, WandbWatch]
           @ concat (map (\<lambda>epoch. concat (map (g epoch)
                 [0..<len_train_dl env (fst (graph_files ds init_feat fg_cyc))
                        (train_bs config)]))
               [0..<train_epochs config])
           @ filter P [RunFinish]"
proof -
  from run obtain train_file val_file test_file train_labels val_labels test_labels tr2 n'
    where gf: "graph_files ds init_feat fg_cyc = (train_file, val_file, test_file)"
      and loop: "epoch_loop env config train_file val_labels test_labels
       (len_train_dl env train_file (train_bs config)) [0..<train_epochs config]
       (tr0 @ [LoadGraphs train_file, LoadGraphs val_file, LoadGraphs test_file,
               ModelInit (model_num_neurons config) (model_input_norm config)
                 (model_nef_dp config) (model_reg_dp config),
               OptimizerInit (train_lr config),
               SchedulerInit (train_T_0 config),
               WandbInit (''NODEREADOUT-'' @ train_ds config) (wandb_group config),
               SaveConfig, WandbWatch], 0) = Inr (tr2, n')"
      and tr': "tr' = tr2 @ [RunFinish]"
    by (rule main_with_config_run)
  have "filter P tr2 = filter P (tr0 @ [LoadGraphs train_file, LoadGraphs val_file, LoadGraphs test_file,
               ModelInit (model_num_neurons config) (model_input_norm config)
                 (model_nef_dp config) (model_reg_dp config),
               OptimizerInit (train_lr config),
               SchedulerInit (train_T_0 config),
               WandbInit (''NODEREADOUT-'' @ train_ds config) (wandb_group config),
               SaveConfig, WandbWatch])
          @ concat (map (\<lambda>epoch. concat (map (g epoch)
                   [0..<len_train_dl env train_file (train_bs config)]))
                 [0..<train_epochs config])"
    by (rule epoch_loop_by_index [where V = "filter P" and g = g, OF _ loop]) (rule step)
  then show ?thesis
    unfolding tr' gf fst_conv snd_conv by (simp only: filter_append append_assoc)
qed

subsection \<open>What one step adds to the calls of each kind\<close>

lemma train_step_scheduler_calls:
  "train_step env config tf vy ty iters epoch i (tr, n) = Inr (tr', n') \<Longrightarrow>
     filter scheduler_call tr' = filter scheduler_call tr
       @ [OptStep, SchedulerStep (of_nat epoch + of_nat i / of_nat iters)]"
  by (auto simp: train_step_def Let_def split: sum.splits if_splits)

lemma train_step_checkpoint_calls:
  "train_step env config tf vy ty iters epoch i (tr, n) = Inr (tr', n') \<Longrightarrow>
     filter checkpoint_call tr' = filter checkpoint_call tr
       @ [ModelCall (TrainBatch epoch i), TorchSave]"
  by (auto simp: train_step_def Let_def split: sum.splits if_splits)

lemma train_step_pipeline_calls:
  "train_step env config tf vy ty iters epoch i (tr, n) = Inr (tr', n') \<Longrightarrow>
     filter pipeline_call tr' = filter pipeline_call tr @ [OptStep]"
  by (auto simp: train_step_def Let_def split: sum.splits if_splits)

lemma train_step_load_calls:
  "train_step env config tf vy ty iters epoch i (tr, n) = Inr (tr', n') \<Longrightarrow>
     filter load_call tr' = filter load_call tr @ []"
  by (auto simp: train_step_def Let_def split: sum.splits if_splits)

lemma train_step_log_view:
  "train_step env config tf vy ty iters epoch i (tr, n) = Inr (tr', Suc n) \<Longrightarrow>
     concat (map log_view tr') = concat (map log_view tr)
       @ (if Suc n mod log_log_every config = 0
          then [Stepped, NoGradOn, EvalMode, Evaluated ValGraphs, Evaluated TestGraphs,
                TrainMode, NoGradOff,
                Logged [''lr'', ''loss'', ''train_rmse'', ''val_rmse'', ''test_rmse'']]
          else [Stepped, Logged [''lr'', ''loss'', ''train_rmse'']])"
  by (auto simp: train_step_def Let_def split: sum.splits if_splits)

subsection \<open>Returning\<close>

lemma train_step_returns:
  assumes "log_log_every config \<noteq> 0"
      and "criterion env (model_out env tr (TrainBatch epoch i))
             (train_dl_labels env tf (train_bs config) epoch i) = Inr sq"
  shows "\<exists>st'. train_step env config tf vy ty iters epoch i (tr, n) = Inr st'"
  using assms by (simp add: train_step_def Let_def)

lemma batch_loop_returns:
  assumes le: "log_log_every config \<noteq> 0"
      and crit: "\<And>tr epoch i. \<exists>sq. criterion env (model_out env tr (TrainBatch epoch i))
             (train_dl_labels env tf (train_bs config) epoch i) = Inr sq"
  shows "\<exists>st'. batch_loop env config tf vy ty iters epoch is st = Inr st'"
proof (induction "is" arbitrary: st)
  case Nil
  then show ?case by simp
next
  case (Cons i rest)
  obtain tr n where st: "st = (tr, n)" by (cases st)
  from crit [of tr epoch i] obtain sq where
    "criterion env (model_out env tr (TrainBatch epoch i))
             (train_dl_labels env tf (train_bs config) epoch i) = Inr sq" ..
  from train_step_returns [OF le this] obtain st1 where
    "train_step env config tf vy ty iters epoch i (tr, n) = Inr st1" by blast
  with Cons.IH [of st1] st show ?case by simp
qed

lemma epoch_loop_returns:
  assumes le: "log_log_every config \<noteq> 0"
      and crit: "\<And>tr epoch i. \<exists>sq. criterion env (model_out env tr (TrainBatch epoch i))
             (train_dl_labels env tf (train_bs config) epoch i) = Inr sq"
  shows "\<exists>st'. epoch_loop env config tf vy ty iters es st = Inr st'"
proof (induction es arbitrary: st)
  case Nil
  then show ?case by simp
next
  case (Cons epoch rest)
  from batch_loop_returns [OF le crit] obtain st1 where
    "batch_loop env config tf vy ty iters epoch [0..<iters] st = Inr st1" by blast
  with Cons.IH [of st1] show ?case by simp
qed

lemma main_with_config_returns:
  assumes le: "log_log_every config \<noteq> 0"
      and crit: "\<And>tr epoch i. \<exists>sq. criterion env (model_out env tr (TrainBatch epoch i))
             (train_dl_labels env (fst (graph_files ds init_feat fg_cyc)) (train_bs config)
                epoch i) = Inr sq"
      and files: "load_graphs env (fst (graph_files ds init_feat fg_cyc)) \<noteq> None"
                 "load_graphs env (fst (snd (graph_files ds init_feat fg_cyc))) \<noteq> None"
                 "load_graphs env (snd (snd (graph_files ds init_feat fg_cyc))) \<noteq> None"
  shows "\<exists>tr'. main_with_config env config ds init_feat fg_cyc device tr0 = Inr tr'"
proof -
  obtain train_file val_file test_file where
    gf: "graph_files ds init_feat fg_cyc = (train_file, val_file, test_file)"
    by (cases "graph_files ds init_feat fg_cyc")
  from files gf obtain train_labels val_labels test_labels where
    l: "load_graphs env train_file = Some train_labels"
       "load_graphs env val_file = Some val_labels"
       "load_graphs env test_file = Some test_labels"
    by auto
  from crit gf have crit': "\<And>tr epoch i. \<exists>sq. criterion env (model_out env tr (TrainBatch epoch i))
             (train_dl_labels env train_file (train_bs config) epoch i) = Inr sq"
    by simp
  from epoch_loop_returns [OF le crit'] obtain st' where
    "epoch_loop env config train_file val_labels test_labels
       (len_train_dl env train_file (train_bs config)) [0..<train_epochs config]
       (tr0 @ [LoadGraphs train_file, LoadGraphs val_file, LoadGraphs test_file,
               ModelInit (model_num_neurons config) (model_input_norm config)
                 (model_nef_dp config) (model_reg_dp config),
               OptimizerInit (train_lr config),
               SchedulerInit (train_T_0 config),
               WandbInit (''NODEREADOUT-'' @ train_ds config) (wandb_group config),
               SaveConfig, WandbWatch], 0) = Inr st'"
    by blast
  then show ?thesis
    by (cases st') (simp add: main_with_config_def gf l Let_def)
qed

subsection \<open>The small run returns\<close>

lemma example_criterion:
  "\<exists>sq. criterion example_env (model_out example_env tr (TrainBatch epoch i))
          (train_dl_labels example_env tf bs epoch i) = Inr sq"
  by (simp add: criterion_def same_shape_def example_env_def)

lemma example_files:
  "load_graphs example_env (fst (graph_files ''d'' True True)) \<noteq> None"
  "load_graphs example_env (fst (snd (graph_files ''d'' True True))) \<noteq> None"
  "load_graphs example_env (snd (snd (graph_files ''d'' True True))) \<noteq> None"
  by (simp_all add: graph_files_def example_env_def)

lemma example_run:
  "\<exists>tr'. main_with_config example_env example_config ''d'' True True ''cuda:1'' [] = Inr tr'"
proof (rule main_with_config_returns)
  show "log_log_every example_config \<noteq> 0"
    by (simp add: example_config_def)
qed (rule example_criterion example_files)+

lemma example_main_returns:
  "\<exists>tr'. main example_env ''d'' True True [128, 64] ''batch'' 0 0 ''cuda:1'' tr0 = Inr tr'"
  unfolding main_def
proof (rule main_with_config_returns)
  show "log_log_every (get_config ''d'' True True [128, 64] ''batch'' 0 0) \<noteq> 0"
    by (simp add: get_config_def)
qed (rule example_criterion example_files)+

lemma example_sizes:
  "len_train_dl example_env (fst (graph_files ''d'' True True)) (train_bs example_config) = 2"
  "train_epochs example_config = 2"
  "log_log_every example_config = 3"
  "train_T_0 example_config = 50"
  by (simp_all add: example_env_def example_config_def get_config_def)

lemma upt_2: "[0..<2] = [0, 1]"
  by (simp add: upt_conv_Cons)

subsection \<open>The loss\<close>

lemma concat_map2_same_shape:
  "map length a = map length b \<Longrightarrow>
     concat (map2 (map2 f) a b) = map2 f (concat a) (concat b)"
proof (induction a arbitrary: b)
  case Nil
  then show ?case by simp
next
  case (Cons x a)
  then obtain y b' where b: "b = y # b'" by (cases b) auto
  with Cons.prems have "length x = length y" "map length a = map length b'" by simp_all
  with Cons.IH [of b'] show ?case by (simp add: b)
qed

text \<open>
  C2: in every pass through the loop body, the loss handed to \<^verbatim>\<open>loss.backward()\<close> is the
  mean over all entries of the unreduced squared error between the predictions of the
  model on that batch and the labels of that batch: the sum of \<open>(p - y)\<^sup>2\<close> over all
  entries, divided by the number of entries (not-a-number for a tensor without entries).
  Predictions and labels have one shape.
\<close>

theorem loss_is_mean_squared_error:
  assumes "train_step env config tf vy ty iters epoch i (tr, n) = Inr (tr', n')"
      and "same_shape (model_out env tr (TrainBatch epoch i))
             (train_dl_labels env tf (train_bs config) epoch i)"
  shows "filter backward_call tr' = filter backward_call tr @
           [Backward
             (if concat (model_out env tr (TrainBatch epoch i)) = [] then NaN
              else Num ((\<Sum>(p, y) \<leftarrow> zip (concat (model_out env tr (TrainBatch epoch i)))
                                      (concat (train_dl_labels env tf (train_bs config) epoch i)).
                            (p - y)\<^sup>2)
                        / of_nat (length (concat (model_out env tr (TrainBatch epoch i))))))]"
proof -
  let ?logits = "model_out env tr (TrainBatch epoch i)"
  let ?labels = "train_dl_labels env tf (train_bs config) epoch i"
  let ?sq = "map2 (map2 (\<lambda>x y. (x - y)\<^sup>2)) ?logits ?labels"
  from assms(2) have shape: "map length ?logits = map length ?labels"
    by (simp add: same_shape_def)
  then have c: "concat ?sq = map2 (\<lambda>x y. (x - y)\<^sup>2) (concat ?logits) (concat ?labels)"
    by (rule concat_map2_same_shape)
  from shape have "length (concat ?logits) = length (concat ?labels)"
    by (simp add: length_concat)
  with c have len: "length (concat ?sq) = length (concat ?logits)" by simp
  have crit: "criterion env ?logits ?labels = Inr ?sq"
    using assms(2) by (simp add: criterion_def)
  from len have empty_iff: "concat ?sq = [] \<longleftrightarrow> concat ?logits = []"
    by (metis length_0_conv)
  have sum: "sum_list (concat ?sq)
               = (\<Sum>(p, y) \<leftarrow> zip (concat ?logits) (concat ?labels). (p - y)\<^sup>2)"
    by (simp only: c)
  have mean: "tensor_mean ?sq =
      (if concat ?logits = [] then NaN
       else Num ((\<Sum>(p, y) \<leftarrow> zip (concat ?logits) (concat ?labels). (p - y)\<^sup>2)
                 / of_nat (length (concat ?logits))))"
    by (simp only: tensor_mean_def Let_def empty_iff sum len)
  from assms(1) have "filter backward_call tr' = filter backward_call tr @ [Backward (tensor_mean ?sq)]"
    by (auto simp: train_step_def Let_def crit split: if_splits)
  then show ?thesis by (simp only: mean)
qed

theorem loss_is_mean_squared_error_witness:
  "same_shape (model_out example_env [] (TrainBatch 0 1))
     (train_dl_labels example_env ''data/d_train.bin'' (train_bs example_config) 0 1)
   \<and> (\<exists>tr' n'. train_step example_env example_config ''data/d_train.bin'' [[3, 3]] [[4, 4]]
                   2 0 1 ([], 0) = Inr (tr', n')
          \<and> filter backward_call tr' = [Backward (Num (5 / 2))])"
proof -
  have shape: "same_shape (model_out example_env [] (TrainBatch 0 1))
     (train_dl_labels example_env ''data/d_train.bin'' (train_bs example_config) 0 1)"
    by (simp add: same_shape_def example_env_def)
  have le: "log_log_every example_config \<noteq> 0"
    by (simp add: example_sizes)
  from example_criterion obtain sq where
    "criterion example_env (model_out example_env [] (TrainBatch 0 1))
       (train_dl_labels example_env ''data/d_train.bin'' (train_bs example_config) 0 1) = Inr sq"
    by blast
  from train_step_returns [OF le this]
  have "\<exists>st'. train_step example_env example_config ''data/d_train.bin'' [[3, 3]] [[4, 4]]
                   2 0 1 ([], 0) = Inr st'" .
  then obtain tr' n' where
    step: "train_step example_env example_config ''data/d_train.bin'' [[3, 3]] [[4, 4]]
                   2 0 1 ([], 0) = Inr (tr', n')"
    by auto
  from loss_is_mean_squared_error [OF step shape]
  have "filter backward_call tr' = [Backward (Num (5 / 2))]"
    by (simp add: example_env_def power2_eq_square)
  with shape step show ?thesis by blast
qed

subsection \<open>The scheduler\<close>

text \<open>
  C3: in a run of \<^verbatim>\<open>main\<close> that returns, the scheduler is created once with the restart
  period \<^verbatim>\<open>T_0\<close> of the configuration, and then, for every epoch \<open>e\<close> and every batch index
  \<open>i\<close> of it in order, the optimizer is stepped and right after it the scheduler is stepped
  once, with the value \<open>e + i / iters\<close>, where \<open>iters\<close> is the number of batches of an
  epoch. There is no other call to the scheduler.
\<close>

theorem scheduler_advanced_every_batch:
  assumes "main_with_config env config ds init_feat fg_cyc device tr0 = Inr tr'"
  shows "filter scheduler_call tr' =
           filter scheduler_call tr0
           @ [SchedulerInit (train_T_0 config)]
           @ concat (map (\<lambda>epoch. concat (map (\<lambda>i.
                 [OptStep,
                  SchedulerStep (of_nat epoch + of_nat i
                     / of_nat (len_train_dl env (fst (graph_files ds init_feat fg_cyc))
                                 (train_bs config)))])
               [0..<len_train_dl env (fst (graph_files ds init_feat fg_cyc)) (train_bs config)]))
             [0..<train_epochs config])"
proof -
  from assms obtain train_file val_file test_file train_labels val_labels test_labels tr2 n'
    where gf: "graph_files ds init_feat fg_cyc = (train_file, val_file, test_file)"
      and loop: "epoch_loop env config train_file val_labels test_labels
       (len_train_dl env train_file (train_bs config)) [0..<train_epochs config]
       (tr0 @ [LoadGraphs train_file, LoadGraphs val_file, LoadGraphs test_file,
               ModelInit (model_num_neurons config) (model_input_norm config)
                 (model_nef_dp config) (model_reg_dp config),
               OptimizerInit (train_lr config),
               SchedulerInit (train_T_0 config),
               WandbInit (''NODEREADOUT-'' @ train_ds config) (wandb_group config),
               SaveConfig, WandbWatch], 0) = Inr (tr2, n')"
      and tr': "tr' = tr2 @ [RunFinish]"
    by (rule main_with_config_run)
  from epoch_loop_by_index [where V = "filter scheduler_call", OF train_step_scheduler_calls loop]
  show ?thesis by (simp add: tr' gf)
qed

theorem scheduler_advanced_every_batch_witness:
  "\<exists>tr'. main_with_config example_env example_config ''d'' True True ''cuda:1'' [] = Inr tr'
     \<and> filter scheduler_call tr' =
         [SchedulerInit 50, OptStep, SchedulerStep 0, OptStep, SchedulerStep (1 / 2),
          OptStep, SchedulerStep 1, OptStep, SchedulerStep (3 / 2)]"
proof -
  from example_run obtain tr' where
    run: "main_with_config example_env example_config ''d'' True True ''cuda:1'' [] = Inr tr'" ..
  from scheduler_advanced_every_batch [OF run]
  have "filter scheduler_call tr' =
         [SchedulerInit 50, OptStep, SchedulerStep 0, OptStep, SchedulerStep (1 / 2),
          OptStep, SchedulerStep 1, OptStep, SchedulerStep (3 / 2)]"
    by (simp add: example_sizes upt_2)
  with run show ?thesis by blast
qed

subsection \<open>Logging and evaluation\<close>

text \<open>
  C4: in a run of \<^verbatim>\<open>main\<close> that returns, the steps are numbered 1, 2, ... by \<^verbatim>\<open>n_update\<close>
  across the epochs. Every step emits one log mapping after its optimizer step, with the
  keys \<^verbatim>\<open>lr\<close>, \<^verbatim>\<open>loss\<close>, \<^verbatim>\<open>train_rmse\<close>. Exactly the steps whose number is a multiple of
  \<^verbatim>\<open>log_every\<close> first evaluate the model on the validation and the test graphs, in
  evaluation mode and under \<^verbatim>\<open>torch.no_grad()\<close>, and their log mapping has the keys
  \<^verbatim>\<open>val_rmse\<close> and \<^verbatim>\<open>test_rmse\<close> as well; no other step evaluates.
\<close>

theorem log_every_step_eval_every_log_every:
  assumes "main_with_config env config ds init_feat fg_cyc device tr0 = Inr tr'"
  shows "concat (map log_view tr') =
           concat (map log_view tr0)
           @ concat (map (\<lambda>k.
                 if k mod log_log_every config = 0
                 then [Stepped, NoGradOn, EvalMode, Evaluated ValGraphs, Evaluated TestGraphs,
                       TrainMode, NoGradOff,
                       Logged [''lr'', ''loss'', ''train_rmse'', ''val_rmse'', ''test_rmse'']]
                 else [Stepped, Logged [''lr'', ''loss'', ''train_rmse'']])
               [1..<1 + train_epochs config
                      * len_train_dl env (fst (graph_files ds init_feat fg_cyc))
                          (train_bs config)])"
proof -
  from assms obtain train_file val_file test_file train_labels val_labels test_labels tr2 n'
    where gf: "graph_files ds init_feat fg_cyc = (train_file, val_file, test_file)"
      and loop: "epoch_loop env config train_file val_labels test_labels
       (len_train_dl env train_file (train_bs config)) [0..<train_epochs config]
       (tr0 @ [LoadGraphs train_file, LoadGraphs val_file, LoadGraphs test_file,
               ModelInit (model_num_neurons config) (model_input_norm config)
                 (model_nef_dp config) (model_reg_dp config),
               OptimizerInit (train_lr config),
               SchedulerInit (train_T_0 config),
               WandbInit (''NODEREADOUT-'' @ train_ds config) (wandb_group config),
               SaveConfig, WandbWatch], 0) = Inr (tr2, n')"
      and tr': "tr' = tr2 @ [RunFinish]"
    by (rule main_with_config_run)
  let ?h = "\<lambda>k. if k mod log_log_every config = 0
                 then [Stepped, NoGradOn, EvalMode, Evaluated ValGraphs, Evaluated TestGraphs,
                       TrainMode, NoGradOff,
                       Logged [''lr'', ''loss'', ''train_rmse'', ''val_rmse'', ''test_rmse'']]
                 else [Stepped, Logged [''lr'', ''loss'', ''train_rmse'']]"
  have step: "\<And>epoch i tr n tr'.
      train_step env config train_file val_labels test_labels
          (len_train_dl env train_file (train_bs config)) epoch i (tr, n) = Inr (tr', Suc n)
        \<Longrightarrow> concat (map log_view tr') = concat (map log_view tr) @ ?h (Suc n)"
    by (rule train_step_log_view)
  from epoch_loop_by_counter [where V = "\<lambda>tr. concat (map log_view tr)" and h = ?h, OF step loop]
  show ?thesis by (simp add: tr' gf)
qed

theorem log_every_step_eval_every_log_every_witness:
  "\<exists>tr'. main_with_config example_env example_config ''d'' True True ''cuda:1'' [] = Inr tr'
     \<and> concat (map log_view tr') =
         [Stepped, Logged [''lr'', ''loss'', ''train_rmse''],
          Stepped, Logged [''lr'', ''loss'', ''train_rmse''],
          Stepped, NoGradOn, EvalMode, Evaluated ValGraphs, Evaluated TestGraphs,
          TrainMode, NoGradOff,
          Logged [''lr'', ''loss'', ''train_rmse'', ''val_rmse'', ''test_rmse''],
          Stepped, Logged [''lr'', ''loss'', ''train_rmse'']]"
proof -
  from example_run obtain tr' where
    run: "main_with_config example_env example_config ''d'' True True ''cuda:1'' [] = Inr tr'" ..
  have steps: "[Suc 0..<5] = [1, 2, 3, 4]"
    by (simp add: upt_conv_Cons)
  from log_every_step_eval_every_log_every [OF run]
  have "concat (map log_view tr') =
         [Stepped, Logged [''lr'', ''loss'', ''train_rmse''],
          Stepped, Logged [''lr'', ''loss'', ''train_rmse''],
          Stepped, NoGradOn, EvalMode, Evaluated ValGraphs, Evaluated TestGraphs,
          TrainMode, NoGradOff,
          Logged [''lr'', ''loss'', ''train_rmse'', ''val_rmse'', ''test_rmse''],
          Stepped, Logged [''lr'', ''loss'', ''train_rmse'']]"
    by (simp add: example_sizes steps)
  with run show ?thesis by blast
qed

subsection \<open>Checkpoints\<close>

text \<open>
  C5: in a run of \<^verbatim>\<open>main\<close> that returns, the forward pass on every training batch, for
  every epoch and every batch index, is followed by one save of the model's parameter
  state before the next training batch is taken (and there is no other save).
\<close>

theorem checkpoint_after_every_batch:
  assumes "main_with_config env config ds init_feat fg_cyc device tr0 = Inr tr'"
  shows "filter checkpoint_call tr' =
           filter checkpoint_call tr0
           @ concat (map (\<lambda>epoch. concat (map (\<lambda>i. [ModelCall (TrainBatch epoch i), TorchSave])
               [0..<len_train_dl env (fst (graph_files ds init_feat fg_cyc)) (train_bs config)]))
             [0..<train_epochs config])"
proof -
  have step: "\<And>tf vy ty iters epoch i tr n tr' n'.
      train_step env config tf vy ty iters epoch i (tr, n) = Inr (tr', n')
        \<Longrightarrow> filter checkpoint_call tr' = filter checkpoint_call tr
              @ [ModelCall (TrainBatch epoch i), TorchSave]"
    by (rule train_step_checkpoint_calls)
  from main_with_config_view [where P = checkpoint_call, OF step assms]
  show ?thesis by simp
qed

theorem checkpoint_after_every_batch_witness:
  "\<exists>tr'. main_with_config example_env example_config ''d'' True True ''cuda:1'' [] = Inr tr'
     \<and> filter checkpoint_call tr' =
         [ModelCall (TrainBatch 0 0), TorchSave, ModelCall (TrainBatch 0 1), TorchSave,
          ModelCall (TrainBatch 1 0), TorchSave, ModelCall (TrainBatch 1 1), TorchSave]"
proof -
  from example_run obtain tr' where
    run: "main_with_config example_env example_config ''d'' True True ''cuda:1'' [] = Inr tr'" ..
  from checkpoint_after_every_batch [OF run]
  have "filter checkpoint_call tr' =
         [ModelCall (TrainBatch 0 0), TorchSave, ModelCall (TrainBatch 0 1), TorchSave,
          ModelCall (TrainBatch 1 0), TorchSave, ModelCall (TrainBatch 1 1), TorchSave]"
    by (simp add: example_sizes upt_2)
  with run show ?thesis by blast
qed

subsection \<open>The graph files\<close>

text \<open>
  C6: for every data-set name and each of the four combinations of the two flags, the
  three files are those of one variant: \<^verbatim>\<open>data/{ds}_*\<close> with both flags,
  \<^verbatim>\<open>data/noinit_{ds}_*\<close> with \<^verbatim>\<open>fg_cyc\<close> only, \<^verbatim>\<open>data_nocyc/nocyc_{ds}_*\<close> with
  \<^verbatim>\<open>init_feat\<close> only, \<^verbatim>\<open>data_nocyc/nocyc_noinit_{ds}_*\<close> with neither; and a run of
  \<^verbatim>\<open>main\<close> that returns has loaded exactly these three files, train, validation, test.
\<close>

theorem graph_file_variants:
  assumes "main_with_config env config ds init_feat fg_cyc device tr0 = Inr tr'"
  shows "graph_files ds True True =
           (''data/'' @ ds @ ''_train.bin'', ''data/'' @ ds @ ''_val.bin'',
            ''data/'' @ ds @ ''_test.bin'')
       \<and> graph_files ds False True =
           (''data/noinit_'' @ ds @ ''_train.bin'', ''data/noinit_'' @ ds @ ''_val.bin'',
            ''data/noinit_'' @ ds @ ''_test.bin'')
       \<and> graph_files ds True False =
           (''data_nocyc/nocyc_'' @ ds @ ''_train.bin'', ''data_nocyc/nocyc_'' @ ds @ ''_val.bin'',
            ''data_nocyc/nocyc_'' @ ds @ ''_test.bin'')
       \<and> graph_files ds False False =
           (''data_nocyc/nocyc_noinit_'' @ ds @ ''_train.bin'',
            ''data_nocyc/nocyc_noinit_'' @ ds @ ''_val.bin'',
            ''data_nocyc/nocyc_noinit_'' @ ds @ ''_test.bin'')
       \<and> filter load_call tr' =
           filter load_call tr0
           @ [LoadGraphs (fst (graph_files ds init_feat fg_cyc)),
              LoadGraphs (fst (snd (graph_files ds init_feat fg_cyc))),
              LoadGraphs (snd (snd (graph_files ds init_feat fg_cyc)))]"
proof -
  have step: "\<And>tf vy ty iters epoch i tr n tr' n'.
      train_step env config tf vy ty iters epoch i (tr, n) = Inr (tr', n')
        \<Longrightarrow> filter load_call tr' = filter load_call tr @ []"
    by (rule train_step_load_calls)
  have "filter load_call tr' =
           filter load_call tr0
           @ [LoadGraphs (fst (graph_files ds init_feat fg_cyc)),
              LoadGraphs (fst (snd (graph_files ds init_feat fg_cyc))),
              LoadGraphs (snd (snd (graph_files ds init_feat fg_cyc)))]"
    using main_with_config_view [where P = load_call, OF step assms]
    by simp
  then show ?thesis by (simp add: graph_files_def)
qed

theorem graph_file_variants_witness:
  "\<exists>tr'. main_with_config example_env example_config ''d'' True True ''cuda:1'' [] = Inr tr'
     \<and> graph_files ''d'' True True
          = (''data/d_train.bin'', ''data/d_val.bin'', ''data/d_test.bin'')
     \<and> graph_files ''d'' False True
          = (''data/noinit_d_train.bin'', ''data/noinit_d_val.bin'', ''data/noinit_d_test.bin'')
     \<and> graph_files ''d'' True False
          = (''data_nocyc/nocyc_d_train.bin'', ''data_nocyc/nocyc_d_val.bin'',
             ''data_nocyc/nocyc_d_test.bin'')
     \<and> graph_files ''d'' False False
          = (''data_nocyc/nocyc_noinit_d_train.bin'', ''data_nocyc/nocyc_noinit_d_val.bin'',
             ''data_nocyc/nocyc_noinit_d_test.bin'')
     \<and> filter load_call tr' =
          [LoadGraphs ''data/d_train.bin'', LoadGraphs ''data/d_val.bin'',
           LoadGraphs ''data/d_test.bin'']"
proof -
  from example_run obtain tr' where
    run: "main_with_config example_env example_config ''d'' True True ''cuda:1'' [] = Inr tr'" ..
  from graph_file_variants [OF run] run show ?thesis by auto
qed

subsection \<open>The script\<close>

lemma main_pipeline_stages:
  assumes "main_with_config env config ds init_feat fg_cyc device tr0 = Inr tr'"
  shows "filter pipeline_call tr' =
           filter pipeline_call tr0 @ pipeline_stages env config ds init_feat fg_cyc"
proof -
  have step: "\<And>tf vy ty iters epoch i tr n tr' n'.
      train_step env config tf vy ty iters epoch i (tr, n) = Inr (tr', n')
        \<Longrightarrow> filter pipeline_call tr' = filter pipeline_call tr @ [OptStep]"
    by (rule train_step_pipeline_calls)
  from main_with_config_view [where P = pipeline_call, OF step assms]
  show ?thesis by (simp add: pipeline_stages_def split: prod.splits)
qed

text \<open>
  C10: a run of the script that returns has called \<^verbatim>\<open>main\<close> three times, one call after
  the other, each with the same parsed arguments, and each call went through the whole
  pipeline: loading the three files, building model, optimizer and scheduler, starting
  the tracked run, one optimizer step for every batch of every epoch, finishing the
  tracked run.
\<close>

theorem script_runs_main_three_times:
  assumes "script env a = Inr tr"
  shows "(\<exists>t1 t2.
            main env (args_ds a) (args_init_feat a) (args_fg_cyc a) (args_num_neurons a)
              (args_input_norm a) (args_nef_dp a) (args_reg_dp a) (args_device a) [] = Inr t1
          \<and> main env (args_ds a) (args_init_feat a) (args_fg_cyc a) (args_num_neurons a)
              (args_input_norm a) (args_nef_dp a) (args_reg_dp a) (args_device a) t1 = Inr t2
          \<and> main env (args_ds a) (args_init_feat a) (args_fg_cyc a) (args_num_neurons a)
              (args_input_norm a) (args_nef_dp a) (args_reg_dp a) (args_device a) t2 = Inr tr)
       \<and> filter pipeline_call tr =
           pipeline_stages env
             (get_config (args_ds a) (args_init_feat a) (args_fg_cyc a) (args_num_neurons a)
                (args_input_norm a) (args_nef_dp a) (args_reg_dp a))
             (args_ds a) (args_init_feat a) (args_fg_cyc a)
           @ pipeline_stages env
             (get_config (args_ds a) (args_init_feat a) (args_fg_cyc a) (args_num_neurons a)
                (args_input_norm a) (args_nef_dp a) (args_reg_dp a))
             (args_ds a) (args_init_feat a) (args_fg_cyc a)
           @ pipeline_stages env
             (get_config (args_ds a) (args_init_feat a) (args_fg_cyc a) (args_num_neurons a)
                (args_input_norm a) (args_nef_dp a) (args_reg_dp a))
             (args_ds a) (args_init_feat a) (args_fg_cyc a)"
proof -
  let ?main = "main env (args_ds a) (args_init_feat a) (args_fg_cyc a) (args_num_neurons a)
              (args_input_norm a) (args_nef_dp a) (args_reg_dp a) (args_device a)"
  let ?stages = "pipeline_stages env
             (get_config (args_ds a) (args_init_feat a) (args_fg_cyc a) (args_num_neurons a)
                (args_input_norm a) (args_nef_dp a) (args_reg_dp a))
             (args_ds a) (args_init_feat a) (args_fg_cyc a)"
  have three: "[0..<3] = [0, 1, 2]" by (simp add: upt_conv_Cons)
  from assms obtain t1 t2 where
    r1: "?main [] = Inr t1" and r2: "?main t1 = Inr t2" and r3: "?main t2 = Inr tr"
    by (auto simp: script_def three split: sum.splits)
  have v: "filter pipeline_call t' = filter pipeline_call t @ ?stages"
    if "?main t = Inr t'" for t t'
    using that unfolding main_def by (rule main_pipeline_stages)
  from v [OF r1] v [OF r2] v [OF r3] have "filter pipeline_call tr = ?stages @ ?stages @ ?stages"
    by simp
  with r1 r2 r3 show ?thesis by blast
qed

theorem script_runs_main_three_times_witness:
  "\<exists>tr. script example_env example_args = Inr tr
     \<and> filter pipeline_call tr =
         pipeline_stages example_env (get_config ''d'' True True [128, 64] ''batch'' 0 0)
           ''d'' True True
         @ pipeline_stages example_env (get_config ''d'' True True [128, 64] ''batch'' 0 0)
           ''d'' True True
         @ pipeline_stages example_env (get_config ''d'' True True [128, 64] ''batch'' 0 0)
           ''d'' True True"
proof -
  from example_main_returns obtain t1 where
    r1: "main example_env ''d'' True True [128, 64] ''batch'' 0 0 ''cuda:1'' [] = Inr t1" ..
  from example_main_returns obtain t2 where
    r2: "main example_env ''d'' True True [128, 64] ''batch'' 0 0 ''cuda:1'' t1 = Inr t2" ..
  from example_main_returns obtain t3 where
    r3: "main example_env ''d'' True True [128, 64] ''batch'' 0 0 ''cuda:1'' t2 = Inr t3" ..
  have three: "[0..<3] = [0, 1, 2]" by (simp add: upt_conv_Cons)
  have run: "script example_env example_args = Inr t3"
    by (simp add: script_def three example_args_def r1 r2 r3)
  from script_runs_main_three_times [OF run]
  have "filter pipeline_call t3 =
         pipeline_stages example_env (get_config ''d'' True True [128, 64] ''batch'' 0 0)
           ''d'' True True
         @ pipeline_stages example_env (get_config ''d'' True True [128, 64] ''batch'' 0 0)
           ''d'' True True
         @ pipeline_stages example_env (get_config ''d'' True True [128, 64] ''batch'' 0 0)
           ''d'' True True"
    by (simp add: example_args_def)
  with run show ?thesis by blast
qed

end
